theory Spec2Isabelle
  imports Main "HOL-Library.Char_ord" "HOL-Library.List_Lexorder"
begin

chapter \<open>JIT access controller: authenticator, request service, reconciler\<close>

section \<open>Authenticator (package auth)\<close>

subsection \<open>Library primitives\<close>

text \<open>
  Go strings and byte slices are byte sequences: both are modelled as \<open>string\<close>
  (a list of 8-bit characters). The hash primitives of \<open>crypto/sha256\<close> and
  \<open>crypto/hmac\<close> are not code of this repository; they are taken as parameters.
  \<open>sha256_Sum256\<close> maps a message to its raw digest, \<open>hmac_sha256 key msg\<close> to the raw
  MAC of \<open>msg\<close> under \<open>key\<close>.
\<close>

record crypto =
  sha256_Sum256 :: "string \<Rightarrow> string"
  hmac_sha256 :: "string \<Rightarrow> string \<Rightarrow> string"

text \<open>\<open>hex.EncodeToString\<close>: two digits of the table \<open>0123456789abcdef\<close> per byte, high nibble first.\<close>

definition hextable :: string where
  "hextable = ''0123456789abcdef''"

definition hexdigits :: "char set" where
  "hexdigits = set ''0123456789abcdef''"

fun EncodeToString :: "string \<Rightarrow> string" where
  "EncodeToString [] = []"
| "EncodeToString (b # bs) =
     hextable ! ((of_char b :: nat) div 16) # hextable ! ((of_char b :: nat) mod 16) # EncodeToString bs"

text \<open>
  \<open>strings.ToUpper\<close> and \<open>strings.ToLower\<close> on ASCII text (HTTP method tokens and header
  names): the letters a-z and A-Z are shifted by 32, every other byte is kept.
\<close>

definition upper_byte :: "char \<Rightarrow> char" where
  "upper_byte c = (if 97 \<le> (of_char c :: nat) \<and> (of_char c :: nat) \<le> 122
                   then char_of ((of_char c :: nat) - 32) else c)"

definition lower_byte :: "char \<Rightarrow> char" where
  "lower_byte c = (if 65 \<le> (of_char c :: nat) \<and> (of_char c :: nat) \<le> 90
                   then char_of ((of_char c :: nat) + 32) else c)"

definition ToUpper :: "string \<Rightarrow> string" where
  "ToUpper s = map upper_byte s"

definition ToLower :: "string \<Rightarrow> string" where
  "ToLower s = map lower_byte s"

text \<open>\<open>strings.Join\<close>: the elements with the separator between each two neighbours.\<close>

fun Join :: "string list \<Rightarrow> string \<Rightarrow> string" where
  "Join [] sep = []"
| "Join [x] sep = x"
| "Join (x # y # ys) sep = x @ sep @ Join (y # ys) sep"

text \<open>
  \<open>strconv.FormatInt(n, 10)\<close> and \<open>strconv.ParseInt(s, 10, 64)\<close>. Parsing accepts an optional
  sign followed by at least one decimal digit and fails (\<open>None\<close>) on any other input and on
  values outside the signed 64-bit range.
\<close>

definition digit_char :: "nat \<Rightarrow> char" where
  "digit_char d = ''0123456789'' ! d"

fun digits_of :: "nat \<Rightarrow> string" where
  "digits_of n = (if n < 10 then [digit_char n] else digits_of (n div 10) @ [digit_char (n mod 10)])"

declare digits_of.simps [simp del]

definition FormatInt :: "int \<Rightarrow> string" where
  "FormatInt n = (if n < 0 then CHR ''-'' # digits_of (nat (- n)) else digits_of (nat n))"

definition digit_val :: "char \<Rightarrow> nat option" where
  "digit_val c = (if 48 \<le> (of_char c :: nat) \<and> (of_char c :: nat) \<le> 57
                  then Some ((of_char c :: nat) - 48) else None)"

fun parse_digits :: "nat \<Rightarrow> string \<Rightarrow> nat option" where
  "parse_digits acc [] = Some acc"
| "parse_digits acc (c # cs) =
     (case digit_val c of None \<Rightarrow> None | Some d \<Rightarrow> parse_digits (acc * 10 + d) cs)"

definition ParseInt :: "string \<Rightarrow> int option" where
  "ParseInt s =
     (let neg = (s \<noteq> [] \<and> hd s = CHR ''-'');
          ds = (if s \<noteq> [] \<and> (hd s = CHR ''+'' \<or> hd s = CHR ''-'') then tl s else s)
      in if ds = [] then None
         else case parse_digits 0 ds of
                None \<Rightarrow> None
              | Some n \<Rightarrow>
                  if \<not> neg \<and> n \<ge> 2 ^ 63 then None
                  else if neg \<and> n > 2 ^ 63 then None
                  else Some (if neg then - int n else int n))"

text \<open>
  Durations are signed 64-bit nanosecond counts. \<open>Time.Sub\<close> saturates at the ends of the
  range, and negating the least value wraps to itself.
\<close>

definition sat64 :: "int \<Rightarrow> int" where
  "sat64 x = max (- (2 ^ 63)) (min (2 ^ 63 - 1) x)"

definition neg64 :: "int \<Rightarrow> int" where
  "neg64 x = (if x = - (2 ^ 63) then x else - x)"

definition Since :: "int \<Rightarrow> int \<Rightarrow> int" where
  \<comment> \<open>\<open>time.Since(time.Unix(ts, 0))\<close> at the instant \<open>now\<close> (nanoseconds since the epoch)\<close>
  "Since now ts = sat64 (now - ts * 1000000000)"

definition Unix :: "int \<Rightarrow> int" where
  \<comment> \<open>\<open>Time.Unix()\<close>: whole seconds since the epoch\<close>
  "Unix now = now div 1000000000"

subsection \<open>Constants and signing\<close>

definition maxTimestampSkew :: int where
  "maxTimestampSkew = 5 * 60 * 1000000000"

definition HeaderKeyID :: string where "HeaderKeyID = ''X-JIT-KeyID''"
definition HeaderTimestamp :: string where "HeaderTimestamp = ''X-JIT-Timestamp''"
definition HeaderNonce :: string where "HeaderNonce = ''X-JIT-Nonce''"
definition HeaderSignature :: string where "HeaderSignature = ''X-JIT-Signature''"

definition buildSigningMessage :: "crypto \<Rightarrow> string \<Rightarrow> string \<Rightarrow> string \<Rightarrow> string \<Rightarrow> string \<Rightarrow> string" where
  "buildSigningMessage cr timestamp nonce method path body =
     (let bodyHash = sha256_Sum256 cr body;
          bodyHashHex = EncodeToString bodyHash
      in Join [timestamp, nonce, ToUpper method, path, bodyHashHex] [CHR 0x0A])"

definition computeHMAC :: "crypto \<Rightarrow> string \<Rightarrow> string \<Rightarrow> string" where
  "computeHMAC cr secret message = EncodeToString (hmac_sha256 cr secret message)"

text \<open>
  A \<open>map[string]string\<close> is an association list with distinct keys. \<open>headerValue\<close> first
  looks the key up as it is written and then scans for a key that matches without regard
  to case.
\<close>

type_synonym strmap = "(string \<times> string) list"

definition headerValue :: "strmap \<Rightarrow> string \<Rightarrow> string" where
  "headerValue headers key =
     (case map_of headers key of
        Some v \<Rightarrow> v
      | None \<Rightarrow> (case find (\<lambda>(k, v). ToLower k = ToLower key) headers of
                   Some (k, v) \<Rightarrow> v
                 | None \<Rightarrow> []))"

text \<open>
  \<open>SignPayload\<close> reads the clock and draws a random UUID; both are arguments here
  (\<open>now\<close> in nanoseconds since the epoch, \<open>uuid\<close> the textual UUID).
\<close>

definition SignPayload :: "crypto \<Rightarrow> int \<Rightarrow> string \<Rightarrow> string \<Rightarrow> string \<Rightarrow> string \<Rightarrow> string \<Rightarrow> string \<Rightarrow> strmap" where
  "SignPayload cr now uuid keyID secret method path body =
     (let timestamp = FormatInt (Unix now);
          nonce = uuid;
          signingMessage = buildSigningMessage cr timestamp nonce method path body;
          sig = computeHMAC cr secret signingMessage
      in [(HeaderKeyID, keyID), (HeaderTimestamp, timestamp), (HeaderNonce, nonce), (HeaderSignature, sig)])"

subsection \<open>Nonce table (package dynamo)\<close>

text \<open>
  The nonce table is keyed by \<open>(key_id, nonce)\<close> and holds \<open>expires_at\<close> for each entry.
  \<open>nonce_outage\<close> stands for a failing call to the table (throttling, network): a call made
  during an outage returns an error and writes nothing.
\<close>

record nonce_db =
  nonce_items :: "(string \<times> string) \<rightharpoonup> int"
  nonce_outage :: bool

datatype auth_error =
    MissingHeaders
  | InvalidTimestampFormat
  | TimestampOutsideSkew int
  | NonceCheckFailed
  | NonceAlreadyUsed
  | InvalidSignature
  | FailedToStoreNonce

definition CheckNonce :: "nonce_db \<Rightarrow> string \<Rightarrow> string \<Rightarrow> bool option" where
  \<comment> \<open>\<open>None\<close> is the error return of \<open>GetItem\<close>\<close>
  "CheckNonce db keyID nonce =
     (if nonce_outage db then None else Some (nonce_items db (keyID, nonce) \<noteq> None))"

definition StoreNonce :: "int \<Rightarrow> nonce_db \<Rightarrow> string \<Rightarrow> string \<Rightarrow> int \<Rightarrow> bool \<times> nonce_db" where
  \<comment> \<open>conditional put \<open>attribute_not_exists(key_id) AND attribute_not_exists(nonce)\<close>;
      the first component tells whether the put succeeded\<close>
  "StoreNonce now db keyID nonce ttlSeconds =
     (let expiresAt = Unix now + ttlSeconds
      in if nonce_outage db then (False, db)
         else if nonce_items db (keyID, nonce) \<noteq> None then (False, db)
         else (True, db\<lparr>nonce_items := (nonce_items db)((keyID, nonce) \<mapsto> expiresAt)\<rparr>))"

subsection \<open>Inbound validation\<close>

text \<open>The two loops over \<open>SigningKeys\<close>: first the entries filed under the presented key id, then all.\<close>

fun match_key_id :: "crypto \<Rightarrow> strmap \<Rightarrow> string \<Rightarrow> string \<Rightarrow> string \<Rightarrow> bool" where
  "match_key_id cr [] keyID signingMessage signature = False"
| "match_key_id cr ((kid, secret) # ks) keyID signingMessage signature =
     (if kid \<noteq> keyID then match_key_id cr ks keyID signingMessage signature
      else if computeHMAC cr secret signingMessage = signature then True
      else match_key_id cr ks keyID signingMessage signature)"

fun match_any_key :: "crypto \<Rightarrow> strmap \<Rightarrow> string \<Rightarrow> string \<Rightarrow> bool" where
  "match_any_key cr [] signingMessage signature = False"
| "match_any_key cr ((kid, secret) # ks) signingMessage signature =
     (if computeHMAC cr secret signingMessage = signature then True
      else match_any_key cr ks signingMessage signature)"

definition nonce_ttl :: int where
  \<comment> \<open>\<open>int64(math.Ceil(maxTimestampSkew.Seconds() * 2))\<close>\<close>
  "nonce_ttl = 600"

text \<open>
  \<open>ValidateRequest\<close> calls \<open>CheckNonce\<close> and later \<open>StoreNonce\<close>; other invocations may write
  to the table in between. \<open>ValidateRequest_among others\<close> is the function with the writes of
  the other invocations that land between the two calls given as \<open>others\<close>;
  \<open>ValidateRequest\<close> is the run with no such write. The result is the error (\<open>None\<close> for
  \<open>nil\<close>) and the table afterwards.
\<close>

definition ValidateRequest_among ::
  "(nonce_db \<Rightarrow> nonce_db) \<Rightarrow> crypto \<Rightarrow> strmap \<Rightarrow> int \<Rightarrow> string \<Rightarrow> string \<Rightarrow> strmap \<Rightarrow> string \<Rightarrow> nonce_db
     \<Rightarrow> auth_error option \<times> nonce_db" where
  "ValidateRequest_among others cr SigningKeys now method path headers body db =
     (let keyID = headerValue headers HeaderKeyID;
          timestamp = headerValue headers HeaderTimestamp;
          nonce = headerValue headers HeaderNonce;
          signature = headerValue headers HeaderSignature
      in if keyID = [] \<or> timestamp = [] \<or> nonce = [] \<or> signature = [] then (Some MissingHeaders, db)
         else case ParseInt timestamp of
           None \<Rightarrow> (Some InvalidTimestampFormat, db)
         | Some ts \<Rightarrow>
             let skew0 = Since now ts;
                 skew = (if skew0 < 0 then neg64 skew0 else skew0)
             in if skew > maxTimestampSkew then (Some (TimestampOutsideSkew skew), db)
                else (case CheckNonce db keyID nonce of
                  None \<Rightarrow> (Some NonceCheckFailed, db)
                | Some exists \<Rightarrow>
                    if exists then (Some NonceAlreadyUsed, db)
                    else
                      let signingMessage = buildSigningMessage cr timestamp nonce method path body;
                          matched = match_key_id cr SigningKeys keyID signingMessage signature;
                          matched = (if \<not> matched
                                     then match_any_key cr SigningKeys signingMessage signature
                                     else matched)
                      in if \<not> matched then (Some InvalidSignature, db)
                         else let (stored, db') = StoreNonce now (others db) keyID nonce nonce_ttl
                              in if \<not> stored then (Some FailedToStoreNonce, db') else (None, db')))"

definition ValidateRequest ::
  "crypto \<Rightarrow> strmap \<Rightarrow> int \<Rightarrow> string \<Rightarrow> string \<Rightarrow> strmap \<Rightarrow> string \<Rightarrow> nonce_db \<Rightarrow> auth_error option \<times> nonce_db" where
  "ValidateRequest = ValidateRequest_among (\<lambda>db. db)"

text \<open>Removing a key id from the key set (a reload of the secret after the key was retired).\<close>

definition delete_key :: "string \<Rightarrow> strmap \<Rightarrow> strmap" where
  "delete_key kid keys = filter (\<lambda>(k, s). k \<noteq> kid) keys"

section \<open>Data model (package models)\<close>

abbreviation StatusPending :: string where "StatusPending \<equiv> ''PENDING''"
abbreviation StatusApproved :: string where "StatusApproved \<equiv> ''APPROVED''"
abbreviation StatusDenied :: string where "StatusDenied \<equiv> ''DENIED''"
abbreviation StatusGranted :: string where "StatusGranted \<equiv> ''GRANTED''"
abbreviation StatusRevoked :: string where "StatusRevoked \<equiv> ''REVOKED''"
abbreviation StatusExpired :: string where "StatusExpired \<equiv> ''EXPIRED''"
abbreviation StatusError :: string where "StatusError \<equiv> ''ERROR''"

abbreviation EventRequested :: string where "EventRequested \<equiv> ''REQUESTED''"
abbreviation EventApproved :: string where "EventApproved \<equiv> ''APPROVED''"
abbreviation EventDenied :: string where "EventDenied \<equiv> ''DENIED''"
abbreviation EventGranted :: string where "EventGranted \<equiv> ''GRANTED''"
abbreviation EventRevoked :: string where "EventRevoked \<equiv> ''REVOKED''"
abbreviation EventExpired :: string where "EventExpired \<equiv> ''EXPIRED''"
abbreviation EventError :: string where "EventError \<equiv> ''ERROR''"

record JitConfig =
  cfg_ChannelID :: string
  cfg_AccountID :: string
  cfg_ApproverMMUserIDs :: "string list"
  cfg_ApprovalPolicy :: string
  cfg_AllowSelfApproval :: bool
  cfg_MaxRequestHours :: int
  cfg_SessionDurationMinutes :: int
  cfg_UpdatedAt :: string

record JitRequest =
  RequestID :: string
  AccountID :: string
  ChannelID :: string
  RequesterMMUserID :: string
  RequesterEmail :: string
  Jira :: string
  Reason :: string
  RequestedDurationMinutes :: int
  Status :: string
  CreatedAt :: string
  ApprovedAt :: string
  DeniedAt :: string
  GrantTime :: string
  RevokedAt :: string
  ExpiredAt :: string
  EndTime :: string
  ApproverMMUserID :: string
  ApproverEmail :: string
  IdentityStoreUserID :: string
  AssignmentStatus :: string
  ErrorDetails :: string

record AuditEvent =
  ev_RequestID :: string
  ev_EventTimeEventID :: string
  ev_EventID :: string
  ev_EventTime :: string
  ev_EventType :: string
  ev_AccountID :: string
  ev_ChannelID :: string
  ev_ActorMMUserID :: string
  ev_ActorEmail :: string
  ev_Details :: strmap

record WebhookPayload =
  wh_RequestID :: string
  wh_Status :: string
  wh_AccountID :: string
  wh_ChannelID :: string
  wh_Actor :: string
  wh_Details :: strmap

record CreateRequestInput =
  cri_AccountID :: string
  cri_ChannelID :: string
  cri_RequesterMMUserID :: string
  cri_RequesterEmail :: string
  cri_Jira :: string
  cri_Reason :: string
  cri_RequestedDurationMinutes :: int

record ApproveRequestInput =
  apr_RequestID :: string
  apr_ApproverMMUserID :: string
  apr_ApproverEmail :: string

record DenyRequestInput =
  dny_RequestID :: string
  dny_DenierMMUserID :: string
  dny_DenierEmail :: string
  dny_Reason :: string

record RevokeRequestInput =
  rvk_RequestID :: string
  rvk_ActorMMUserID :: string
  rvk_ActorEmail :: string

record StepFunctionInput =
  sfi_RequestID :: string
  sfi_AccountID :: string
  sfi_ChannelID :: string
  sfi_IdentityStoreUserID :: string
  sfi_DurationMinutes :: int
  sfi_RequesterEmail :: string

record BindAccountInput =
  bnd_ChannelID :: string
  bnd_AccountID :: string

record ActionResult =
  ar_Status :: string
  ar_RequestID :: string
  ar_Message :: string

section \<open>Environment and stored state\<close>

text \<open>
  One invocation runs against an environment that it does not change and a world that it
  does. The environment holds the clock (nanoseconds since the epoch, read once per
  invocation), the formatter \<open>Time.Format(time.RFC3339)\<close>, the supply of random UUIDs, the
  store operations that fail during the invocation (throttling, network), the answers of
  the identity provider (\<open>None\<close> for success of grant and revoke, the error text otherwise;
  for the lookup the user id or \<open>None\<close> for an error), the outcome of each webhook delivery
  attempt, and the workflow engine.
\<close>

datatype level = LevelInfo | LevelWarn | LevelError

datatype db_op =
    OpGetConfig | OpPutConfig | OpGetChannelForAccount
  | OpCreateRequest | OpGetRequest | OpConditionalUpdateStatus | OpQueryRequestsByStatus
  | OpPutAuditEvent

record env =
  clock :: int
  rfc3339 :: "int \<Rightarrow> string"
  new_uuid :: "nat \<Rightarrow> string"
  outage :: "db_op set"
  LookupUserByEmail :: "string \<Rightarrow> string option"
  GrantAccess :: "string \<Rightarrow> string \<Rightarrow> string option"
  RevokeAccess :: "string \<Rightarrow> string \<Rightarrow> string option"
  webhook_send :: "WebhookPayload \<Rightarrow> nat \<Rightarrow> bool"
  sfn_configured :: bool
  sfn_start :: "StepFunctionInput \<Rightarrow> bool"

text \<open>
  The world: the three tables (each a list of items with distinct primary keys), the
  contents of the index \<open>gsi_account\<close> of the config table, the webhook payloads
  delivered, the workflow executions started, the log records written and the number of
  UUIDs drawn so far. The index is eventually consistent: a write to the config table does
  not change it, and the store brings it up to date at some later time
  (\<open>gsi_account_propagate\<close>).
\<close>

record world =
  tableConfig :: "JitConfig list"
  indexAccount :: "JitConfig list"
  tableRequests :: "JitRequest list"
  tableAudit :: "AuditEvent list"
  delivered :: "WebhookPayload list"
  executions :: "StepFunctionInput list"
  logged :: "(level \<times> string) list"
  uuids_drawn :: nat

definition slog :: "level \<Rightarrow> string \<Rightarrow> world \<Rightarrow> world" where
  "slog lvl msg w = w\<lparr>logged := logged w @ [(lvl, msg)]\<rparr>"

definition uuid_New :: "env \<Rightarrow> world \<Rightarrow> string \<times> world" where
  "uuid_New e w = (new_uuid e (uuids_drawn w), w\<lparr>uuids_drawn := Suc (uuids_drawn w)\<rparr>)"

definition wrap64 :: "int \<Rightarrow> int" where
  \<comment> \<open>the value of a signed 64-bit computation\<close>
  "wrap64 x = (x + 2 ^ 63) mod 2 ^ 64 - 2 ^ 63"

section \<open>Store operations (package dynamo)\<close>

datatype 'a dbres = DbError | DbOk 'a

definition GetConfig :: "env \<Rightarrow> world \<Rightarrow> string \<Rightarrow> string \<Rightarrow> JitConfig option dbres" where
  "GetConfig e w channelID accountID =
     (if OpGetConfig \<in> outage e then DbError
      else DbOk (find (\<lambda>c. cfg_ChannelID c = channelID \<and> cfg_AccountID c = accountID) (tableConfig w)))"

definition PutConfig :: "env \<Rightarrow> JitConfig \<Rightarrow> world \<Rightarrow> bool \<times> world" where
  \<comment> \<open>unconditional put: replaces the item with the same \<open>(channel_id, account_id)\<close>\<close>
  "PutConfig e cfg w =
     (if OpPutConfig \<in> outage e then (False, w)
      else (True, w\<lparr>tableConfig :=
              filter (\<lambda>c. \<not> (cfg_ChannelID c = cfg_ChannelID cfg \<and> cfg_AccountID c = cfg_AccountID cfg))
                (tableConfig w) @ [cfg]\<rparr>))"

definition GetChannelForAccount :: "env \<Rightarrow> world \<Rightarrow> string \<Rightarrow> JitConfig option dbres" where
  \<comment> \<open>query on the index \<open>gsi_account\<close> with \<open>Limit 1\<close>: the first item of the account
      that the index holds\<close>
  "GetChannelForAccount e w accountID =
     (if OpGetChannelForAccount \<in> outage e then DbError
      else DbOk (find (\<lambda>c. cfg_AccountID c = accountID) (indexAccount w)))"

definition gsi_account_propagate :: "world \<Rightarrow> world" where
  \<comment> \<open>the store brings the index up to date with the config table\<close>
  "gsi_account_propagate w = w\<lparr>indexAccount := tableConfig w\<rparr>"

definition CreateRequest :: "env \<Rightarrow> JitRequest \<Rightarrow> world \<Rightarrow> bool \<times> world" where
  \<comment> \<open>conditional put \<open>attribute_not_exists(request_id)\<close>\<close>
  "CreateRequest e req w =
     (if OpCreateRequest \<in> outage e then (False, w)
      else if find (\<lambda>r. RequestID r = RequestID req) (tableRequests w) \<noteq> None then (False, w)
      else (True, w\<lparr>tableRequests := tableRequests w @ [req]\<rparr>))"

definition GetRequest :: "env \<Rightarrow> world \<Rightarrow> string \<Rightarrow> JitRequest option dbres" where
  "GetRequest e w requestID =
     (if OpGetRequest \<in> outage e then DbError
      else DbOk (find (\<lambda>r. RequestID r = requestID) (tableRequests w)))"

text \<open>The attributes that the callers of \<open>ConditionalUpdateStatus\<close> set, by their stored names.\<close>

definition set_attribute :: "string \<times> string \<Rightarrow> JitRequest \<Rightarrow> JitRequest" where
  "set_attribute kv r =
     (if fst kv = ''status'' then r\<lparr>Status := snd kv\<rparr>
      else if fst kv = ''approved_at'' then r\<lparr>ApprovedAt := snd kv\<rparr>
      else if fst kv = ''denied_at'' then r\<lparr>DeniedAt := snd kv\<rparr>
      else if fst kv = ''grant_time'' then r\<lparr>GrantTime := snd kv\<rparr>
      else if fst kv = ''revoked_at'' then r\<lparr>RevokedAt := snd kv\<rparr>
      else if fst kv = ''expired_at'' then r\<lparr>ExpiredAt := snd kv\<rparr>
      else if fst kv = ''approver_mm_user_id'' then r\<lparr>ApproverMMUserID := snd kv\<rparr>
      else if fst kv = ''approver_email'' then r\<lparr>ApproverEmail := snd kv\<rparr>
      else if fst kv = ''error_details'' then r\<lparr>ErrorDetails := snd kv\<rparr>
      else r)"

definition ConditionalUpdateStatus :: "env \<Rightarrow> string \<Rightarrow> string \<Rightarrow> strmap \<Rightarrow> world \<Rightarrow> bool \<times> world" where
  \<comment> \<open>update under the condition \<open>#status = :expected\<close>, which a missing item fails as well\<close>
  "ConditionalUpdateStatus e requestID expectedStatus updates w =
     (if OpConditionalUpdateStatus \<in> outage e then (False, w)
      else case find (\<lambda>r. RequestID r = requestID) (tableRequests w) of
             None \<Rightarrow> (False, w)
           | Some r0 \<Rightarrow>
               if Status r0 \<noteq> expectedStatus then (False, w)
               else (True, w\<lparr>tableRequests :=
                       map (\<lambda>r. if RequestID r = requestID then fold set_attribute updates r else r)
                         (tableRequests w)\<rparr>))"

definition QueryRequestsByStatus :: "env \<Rightarrow> world \<Rightarrow> string \<Rightarrow> string \<Rightarrow> int \<Rightarrow> JitRequest list dbres" where
  \<comment> \<open>query on the index \<open>gsi_status_endtime\<close>, in ascending order of \<open>end_time\<close>
      (compared as strings); a positive limit bounds the number of items\<close>
  "QueryRequestsByStatus e w status beforeEndTime limit =
     (if OpQueryRequestsByStatus \<in> outage e then DbError
      else let matching = filter (\<lambda>r. Status r = status \<and> (beforeEndTime \<noteq> [] \<longrightarrow> EndTime r \<le> beforeEndTime))
                            (tableRequests w);
               ordered = sort_key EndTime matching
           in DbOk (if limit > 0 then take (nat limit) ordered else ordered))"

definition PutAuditEvent :: "env \<Rightarrow> AuditEvent \<Rightarrow> world \<Rightarrow> bool \<times> world" where
  \<comment> \<open>unconditional put under the key \<open>(request_id, event_time_event_id)\<close>\<close>
  "PutAuditEvent e event w =
     (if OpPutAuditEvent \<in> outage e then (False, w)
      else (True, w\<lparr>tableAudit :=
              filter (\<lambda>x. \<not> (ev_RequestID x = ev_RequestID event \<and> ev_EventTimeEventID x = ev_EventTimeEventID event))
                (tableAudit w) @ [event]\<rparr>))"

section \<open>Audit logger, webhook client, workflow starter\<close>

definition Log :: "env \<Rightarrow> string \<Rightarrow> string \<Rightarrow> string \<Rightarrow> string \<Rightarrow> string \<Rightarrow> string \<Rightarrow> strmap \<Rightarrow> world \<Rightarrow> bool \<times> world" where
  "Log e requestID eventType accountID channelID actorMMUserID actorEmail details w =
     (let drawn = uuid_New e w;
          eventID = fst drawn;
          eventTime = rfc3339 e (clock e);
          sortKey = eventTime @ ''#'' @ eventID;
          event = \<lparr>ev_RequestID = requestID, ev_EventTimeEventID = sortKey, ev_EventID = eventID,
                    ev_EventTime = eventTime, ev_EventType = eventType, ev_AccountID = accountID,
                    ev_ChannelID = channelID, ev_ActorMMUserID = actorMMUserID,
                    ev_ActorEmail = actorEmail, ev_Details = details\<rparr>;
          put = PutAuditEvent e event (snd drawn)
      in if \<not> fst put then (False, slog LevelError ''failed to write audit event'' (snd put))
         else (True, slog LevelInfo ''audit event recorded'' (snd put)))"

text \<open>
  \<open>Notify\<close> makes up to four delivery attempts (one and three retries); \<open>webhook_send e p i\<close>
  tells whether attempt \<open>i\<close> is answered with a 2xx status.
\<close>

fun Notify_attempts :: "env \<Rightarrow> WebhookPayload \<Rightarrow> nat \<Rightarrow> nat \<Rightarrow> world \<Rightarrow> bool \<times> world" where
  "Notify_attempts e payload attempt 0 w = (False, w)"
| "Notify_attempts e payload attempt (Suc left) w =
     (let w1 = (if attempt > 0 then slog LevelWarn ''retrying webhook notification'' w else w)
      in if webhook_send e payload attempt
         then (True, slog LevelInfo ''webhook notification sent'' (w1\<lparr>delivered := delivered w1 @ [payload]\<rparr>))
         else Notify_attempts e payload (Suc attempt) left (slog LevelError ''webhook send failed'' w1))"

definition Notify :: "env \<Rightarrow> WebhookPayload \<Rightarrow> world \<Rightarrow> bool \<times> world" where
  "Notify e payload w = Notify_attempts e payload 0 4 w"

definition StartExecution :: "env \<Rightarrow> StepFunctionInput \<Rightarrow> world \<Rightarrow> bool \<times> world" where
  "StartExecution e input w =
     (if \<not> sfn_start e input then (False, w)
      else (True, slog LevelInfo ''step function execution started'' (w\<lparr>executions := executions w @ [input]\<rparr>)))"

section \<open>Request service (package handlers)\<close>

text \<open>One error value per \<open>fmt.Errorf\<close> of the handlers, with the values that its message shows.\<close>

datatype handler_error =
    ErrAccountAndChannelRequired
  | ErrRequesterRequired
  | ErrJiraOrReasonRequired
  | ErrDurationNotPositive
  | ErrLookupConfig
  | ErrNoBinding string string
  | ErrDurationExceedsMaximum int int
  | ErrIdentityLookup
  | ErrCreateRequest
  | ErrRequestIDRequired
  | ErrApproverRequired
  | ErrDenierRequired
  | ErrActorRequired
  | ErrGetRequest
  | ErrRequestNotFound string
  | ErrWrongStatus string string string
  | ErrNotAuthorizedApprover string
  | ErrSelfApprovalNotAllowed
  | ErrUpdateTo string
  | ErrRevokeAccess string
  | ErrChannelAndAccountRequired
  | ErrLookupExistingBinding
  | ErrAlreadyBound string string
  | ErrPutConfig
  | ErrQueryExpiredGrants
  | ErrReconcilerCompletedWithErrors int int

definition HandleCreateRequest :: "env \<Rightarrow> CreateRequestInput \<Rightarrow> world \<Rightarrow> (handler_error + JitRequest) \<times> world" where
  "HandleCreateRequest e input w =
     (if cri_AccountID input = [] \<or> cri_ChannelID input = [] then (Inl ErrAccountAndChannelRequired, w)
      else if cri_RequesterMMUserID input = [] \<or> cri_RequesterEmail input = [] then (Inl ErrRequesterRequired, w)
      else if cri_Jira input = [] \<and> cri_Reason input = [] then (Inl ErrJiraOrReasonRequired, w)
      else if cri_RequestedDurationMinutes input \<le> 0 then (Inl ErrDurationNotPositive, w)
      else case GetConfig e w (cri_ChannelID input) (cri_AccountID input) of
        DbError \<Rightarrow> (Inl ErrLookupConfig, w)
      | DbOk None \<Rightarrow> (Inl (ErrNoBinding (cri_ChannelID input) (cri_AccountID input)), w)
      | DbOk (Some cfg) \<Rightarrow>
          let maxMinutes = wrap64 (cfg_MaxRequestHours cfg * 60)
          in if maxMinutes > 0 \<and> cri_RequestedDurationMinutes input > maxMinutes
             then (Inl (ErrDurationExceedsMaximum (cri_RequestedDurationMinutes input) maxMinutes), w)
             else (case LookupUserByEmail e (cri_RequesterEmail input) of
               None \<Rightarrow> (Inl ErrIdentityLookup, w)
             | Some userID \<Rightarrow>
                 let now = clock e;
                     drawn = uuid_New e w;
                     requestID = fst drawn;
                     endTime = now + wrap64 (cri_RequestedDurationMinutes input * 60000000000);
                     req = \<lparr>RequestID = requestID,
                            AccountID = cri_AccountID input,
                            ChannelID = cri_ChannelID input,
                            RequesterMMUserID = cri_RequesterMMUserID input,
                            RequesterEmail = cri_RequesterEmail input,
                            Jira = cri_Jira input,
                            Reason = cri_Reason input,
                            RequestedDurationMinutes = cri_RequestedDurationMinutes input,
                            Status = StatusPending,
                            CreatedAt = rfc3339 e now,
                            ApprovedAt = [], DeniedAt = [], GrantTime = [], RevokedAt = [], ExpiredAt = [],
                            EndTime = rfc3339 e endTime,
                            ApproverMMUserID = [], ApproverEmail = [],
                            IdentityStoreUserID = userID,
                            AssignmentStatus = [], ErrorDetails = []\<rparr>;
                     created = CreateRequest e req (snd drawn)
                 in if \<not> fst created then (Inl ErrCreateRequest, snd created)
                    else
                      let w1 = slog LevelInfo ''request created'' (snd created);
                          audited = Log e requestID EventRequested (cri_AccountID input) (cri_ChannelID input)
                                      (cri_RequesterMMUserID input) (cri_RequesterEmail input)
                                      [(''jira'', cri_Jira input), (''reason'', cri_Reason input),
                                       (''requested_duration_minutes'', FormatInt (cri_RequestedDurationMinutes input))]
                                      w1
                      in (Inr req, snd audited)))"

text \<open>
  \<open>Router.handleCreateRequest\<close> answers an error of \<open>HandleCreateRequest\<close> with
  \<open>400 Bad Request\<close> and a created request with \<open>201 Created\<close>.
\<close>

definition handleCreateRequest_status :: "(handler_error + JitRequest) \<Rightarrow> nat" where
  "handleCreateRequest_status r = (case r of Inl err \<Rightarrow> 400 | Inr req \<Rightarrow> 201)"

definition HandleApproveRequest :: "env \<Rightarrow> ApproveRequestInput \<Rightarrow> world \<Rightarrow> (handler_error + JitRequest option) \<times> world" where
  "HandleApproveRequest e input w =
     (if apr_RequestID input = [] then (Inl ErrRequestIDRequired, w)
      else if apr_ApproverMMUserID input = [] \<or> apr_ApproverEmail input = [] then (Inl ErrApproverRequired, w)
      else case GetRequest e w (apr_RequestID input) of
        DbError \<Rightarrow> (Inl ErrGetRequest, w)
      | DbOk None \<Rightarrow> (Inl (ErrRequestNotFound (apr_RequestID input)), w)
      | DbOk (Some req) \<Rightarrow>
          if Status req \<noteq> StatusPending
          then (Inl (ErrWrongStatus (apr_RequestID input) (Status req) StatusPending), w)
          else (case GetConfig e w (ChannelID req) (AccountID req) of
            DbError \<Rightarrow> (Inl ErrLookupConfig, w)
          | DbOk cfg \<Rightarrow>
              if cfg \<noteq> None \<and> apr_ApproverMMUserID input \<notin> set (cfg_ApproverMMUserIDs (the cfg))
              then (Inl (ErrNotAuthorizedApprover (apr_ApproverMMUserID input)), w)
              else if cfg \<noteq> None \<and> \<not> cfg_AllowSelfApproval (the cfg)
                        \<and> apr_ApproverMMUserID input = RequesterMMUserID req
              then (Inl ErrSelfApprovalNotAllowed, w)
              else
                let now = clock e;
                    updates = [(''status'', StatusApproved),
                               (''approved_at'', rfc3339 e now),
                               (''approver_mm_user_id'', apr_ApproverMMUserID input),
                               (''approver_email'', apr_ApproverEmail input)];
                    updated = ConditionalUpdateStatus e (apr_RequestID input) StatusPending updates w
                in if \<not> fst updated then (Inl (ErrUpdateTo StatusApproved), snd updated)
                   else
                     let w1 = slog LevelInfo ''request approved'' (snd updated);
                         w2 = snd (Log e (apr_RequestID input) EventApproved (AccountID req) (ChannelID req)
                                     (apr_ApproverMMUserID input) (apr_ApproverEmail input) [] w1);
                         sfInput = \<lparr>sfi_RequestID = RequestID req,
                                     sfi_AccountID = AccountID req,
                                     sfi_ChannelID = ChannelID req,
                                     sfi_IdentityStoreUserID = IdentityStoreUserID req,
                                     sfi_DurationMinutes = RequestedDurationMinutes req,
                                     sfi_RequesterEmail = RequesterEmail req\<rparr>;
                         w3 = (if sfn_configured e
                               then let started = StartExecution e sfInput w2
                                    in if \<not> fst started
                                       then slog LevelError ''failed to start grant workflow'' (snd started)
                                       else snd started
                               else w2)
                     in (Inr (case GetRequest e w3 (apr_RequestID input) of DbError \<Rightarrow> None | DbOk r \<Rightarrow> r), w3)))"

definition HandleDenyRequest :: "env \<Rightarrow> DenyRequestInput \<Rightarrow> world \<Rightarrow> (handler_error + JitRequest option) \<times> world" where
  "HandleDenyRequest e input w =
     (if dny_RequestID input = [] then (Inl ErrRequestIDRequired, w)
      else if dny_DenierMMUserID input = [] \<or> dny_DenierEmail input = [] then (Inl ErrDenierRequired, w)
      else case GetRequest e w (dny_RequestID input) of
        DbError \<Rightarrow> (Inl ErrGetRequest, w)
      | DbOk None \<Rightarrow> (Inl (ErrRequestNotFound (dny_RequestID input)), w)
      | DbOk (Some req) \<Rightarrow>
          if Status req \<noteq> StatusPending
          then (Inl (ErrWrongStatus (dny_RequestID input) (Status req) StatusPending), w)
          else (case GetConfig e w (ChannelID req) (AccountID req) of
            DbError \<Rightarrow> (Inl ErrLookupConfig, w)
          | DbOk cfg \<Rightarrow>
              if cfg \<noteq> None \<and> dny_DenierMMUserID input \<notin> set (cfg_ApproverMMUserIDs (the cfg))
              then (Inl (ErrNotAuthorizedApprover (dny_DenierMMUserID input)), w)
              else
                let now = clock e;
                    updates = [(''status'', StatusDenied),
                               (''denied_at'', rfc3339 e now),
                               (''approver_mm_user_id'', dny_DenierMMUserID input),
                               (''approver_email'', dny_DenierEmail input)];
                    updated = ConditionalUpdateStatus e (dny_RequestID input) StatusPending updates w
                in if \<not> fst updated then (Inl (ErrUpdateTo StatusDenied), snd updated)
                   else
                     let w1 = slog LevelInfo ''request denied'' (snd updated);
                         w2 = snd (Log e (dny_RequestID input) EventDenied (AccountID req) (ChannelID req)
                                     (dny_DenierMMUserID input) (dny_DenierEmail input) [] w1)
                     in (Inr (case GetRequest e w2 (dny_RequestID input) of DbError \<Rightarrow> None | DbOk r \<Rightarrow> r), w2)))"

definition HandleRevokeRequest :: "env \<Rightarrow> RevokeRequestInput \<Rightarrow> world \<Rightarrow> (handler_error + JitRequest option) \<times> world" where
  "HandleRevokeRequest e input w =
     (if rvk_RequestID input = [] then (Inl ErrRequestIDRequired, w)
      else if rvk_ActorMMUserID input = [] \<or> rvk_ActorEmail input = [] then (Inl ErrActorRequired, w)
      else case GetRequest e w (rvk_RequestID input) of
        DbError \<Rightarrow> (Inl ErrGetRequest, w)
      | DbOk None \<Rightarrow> (Inl (ErrRequestNotFound (rvk_RequestID input)), w)
      | DbOk (Some req) \<Rightarrow>
          if Status req \<noteq> StatusGranted
          then (Inl (ErrWrongStatus (rvk_RequestID input) (Status req) StatusGranted), w)
          else (case RevokeAccess e (AccountID req) (IdentityStoreUserID req) of
            Some err \<Rightarrow>
              let w1 = slog LevelError ''failed to revoke access'' w;
                  errUpdates = [(''status'', StatusError), (''error_details'', err)];
                  w2 = snd (ConditionalUpdateStatus e (rvk_RequestID input) StatusGranted errUpdates w1)
              in (Inl (ErrRevokeAccess err), w2)
          | None \<Rightarrow>
              let now = clock e;
                  updates = [(''status'', StatusRevoked), (''revoked_at'', rfc3339 e now)];
                  updated = ConditionalUpdateStatus e (rvk_RequestID input) StatusGranted updates w
              in if \<not> fst updated then (Inl (ErrUpdateTo StatusRevoked), snd updated)
                 else
                   let w1 = slog LevelInfo ''request revoked'' (snd updated);
                       w2 = snd (Log e (rvk_RequestID input) EventRevoked (AccountID req) (ChannelID req)
                                   (rvk_ActorMMUserID input) (rvk_ActorEmail input) [] w1);
                       w3 = snd (Notify e \<lparr>wh_RequestID = rvk_RequestID input, wh_Status = StatusRevoked,
                                            wh_AccountID = AccountID req, wh_ChannelID = ChannelID req,
                                            wh_Actor = rvk_ActorEmail input, wh_Details = []\<rparr> w2)
                   in (Inr (case GetRequest e w3 (rvk_RequestID input) of DbError \<Rightarrow> None | DbOk r \<Rightarrow> r), w3)))"

text \<open>
  \<open>HandleBindAccount\<close> looks the account up in the index, reads the config item and then
  writes with an unconditional put; other invocations may write to the config table in
  between. \<open>HandleBindAccount_among others\<close> is the function with the writes of the other
  invocations that land between its reads and its put given as \<open>others\<close>;
  \<open>HandleBindAccount\<close> is the run with no such write.
\<close>

definition HandleBindAccount_among :: "(world \<Rightarrow> world) \<Rightarrow> env \<Rightarrow> BindAccountInput \<Rightarrow> world \<Rightarrow> (handler_error + JitConfig) \<times> world" where
  "HandleBindAccount_among others e input w =
     (if bnd_ChannelID input = [] \<or> bnd_AccountID input = [] then (Inl ErrChannelAndAccountRequired, w)
      else case GetChannelForAccount e w (bnd_AccountID input) of
        DbError \<Rightarrow> (Inl ErrLookupExistingBinding, w)
      | DbOk existing \<Rightarrow>
          if existing \<noteq> None \<and> cfg_ChannelID (the existing) \<noteq> bnd_ChannelID input
          then (Inl (ErrAlreadyBound (bnd_AccountID input) (cfg_ChannelID (the existing))), w)
          else
            let now = clock e;
                cfg = \<lparr>cfg_ChannelID = bnd_ChannelID input,
                       cfg_AccountID = bnd_AccountID input,
                       cfg_ApproverMMUserIDs = [],
                       cfg_ApprovalPolicy = ''one_of_n'',
                       cfg_AllowSelfApproval = False,
                       cfg_MaxRequestHours = 4,
                       cfg_SessionDurationMinutes = 0,
                       cfg_UpdatedAt = rfc3339 e now\<rparr>
            in (case GetConfig e w (bnd_ChannelID input) (bnd_AccountID input) of
              DbError \<Rightarrow> (Inl ErrLookupConfig, w)
            | DbOk existingCfg \<Rightarrow>
                let cfg = (case existingCfg of
                             None \<Rightarrow> cfg
                           | Some ex \<Rightarrow> cfg\<lparr>cfg_ApproverMMUserIDs := cfg_ApproverMMUserIDs ex,
                                             cfg_ApprovalPolicy := cfg_ApprovalPolicy ex,
                                             cfg_AllowSelfApproval := cfg_AllowSelfApproval ex,
                                             cfg_MaxRequestHours := cfg_MaxRequestHours ex,
                                             cfg_SessionDurationMinutes := cfg_SessionDurationMinutes ex\<rparr>);
                    put = PutConfig e cfg (others w)
                in if \<not> fst put then (Inl ErrPutConfig, snd put)
                   else (Inr cfg, slog LevelInfo ''account bound to channel'' (snd put))))"

definition HandleBindAccount :: "env \<Rightarrow> BindAccountInput \<Rightarrow> world \<Rightarrow> (handler_error + JitConfig) \<times> world" where
  "HandleBindAccount = HandleBindAccount_among (\<lambda>w. w)"

section \<open>Workflow action \<open>revoke\<close> (package handlers, actions)\<close>

text \<open>
  Of the payload of the workflow step only \<open>request_id\<close> is read. Between the read of
  the request and the conditional update the step calls the identity provider, which polls
  and retries; other invocations (a manual revoke, the reconciler) may change the request
  in that time. \<open>handleRevoke_among others\<close> is the function with their writes given as
  \<open>others\<close>; \<open>handleRevoke\<close> is the run with no such write.
\<close>

definition handleRevoke_among :: "(world \<Rightarrow> world) \<Rightarrow> env \<Rightarrow> string \<Rightarrow> world \<Rightarrow> (handler_error + ActionResult) \<times> world" where
  "handleRevoke_among others e p_RequestID w =
     (case GetRequest e w p_RequestID of
        DbError \<Rightarrow> (Inl ErrGetRequest, w)
      | DbOk None \<Rightarrow> (Inl (ErrRequestNotFound p_RequestID), w)
      | DbOk (Some req) \<Rightarrow>
          if Status req = StatusRevoked \<or> Status req = StatusExpired
          then (Inr \<lparr>ar_Status = Status req, ar_RequestID = p_RequestID,
                      ar_Message = ''already revoked or expired''\<rparr>,
                slog LevelInfo ''request already revoked/expired, skipping'' w)
          else (case RevokeAccess e (AccountID req) (IdentityStoreUserID req) of
            Some err \<Rightarrow> (Inl (ErrRevokeAccess err), w)
          | None \<Rightarrow>
              let now = clock e;
                  updates = [(''status'', StatusExpired), (''expired_at'', rfc3339 e now)];
                  updated = ConditionalUpdateStatus e p_RequestID StatusGranted updates (others w)
              in if \<not> fst updated
                 then (Inr \<lparr>ar_Status = ''already_handled'', ar_RequestID = p_RequestID,
                             ar_Message = ''conditional update failed, likely already revoked''\<rparr>,
                       slog LevelWarn ''conditional update to EXPIRED failed, may have been revoked already''
                         (snd updated))
                 else
                   let w1 = snd (Log e p_RequestID EventExpired (AccountID req) (ChannelID req)
                                   [] ''system'' [] (snd updated));
                       w2 = slog LevelInfo ''access revoked via step function'' w1
                   in (Inr \<lparr>ar_Status = ''expired'', ar_RequestID = p_RequestID, ar_Message = []\<rparr>, w2)))"

definition handleRevoke :: "env \<Rightarrow> string \<Rightarrow> world \<Rightarrow> (handler_error + ActionResult) \<times> world" where
  "handleRevoke = handleRevoke_among (\<lambda>w. w)"

section \<open>Reconciler\<close>

text \<open>
  \<open>revokeExpired\<close> works on the copy of the request that the query returned; the stored
  request may have changed since. The result is the error (\<open>None\<close> for \<open>nil\<close>).
\<close>

definition revokeExpired :: "env \<Rightarrow> JitRequest \<Rightarrow> world \<Rightarrow> handler_error option \<times> world" where
  "revokeExpired e req w =
     (case RevokeAccess e (AccountID req) (IdentityStoreUserID req) of
        Some err \<Rightarrow>
          let errUpdates = [(''status'', StatusError),
                            (''error_details'', ''reconciler revoke failed: '' @ err)];
              w1 = snd (ConditionalUpdateStatus e (RequestID req) StatusGranted errUpdates w);
              w2 = snd (Log e (RequestID req) EventError (AccountID req) (ChannelID req)
                          [] ''reconciler'' [(''error'', err)] w1)
          in (Some (ErrRevokeAccess err), w2)
      | None \<Rightarrow>
          let now = clock e;
              updates = [(''status'', StatusExpired), (''expired_at'', rfc3339 e now)];
              updated = ConditionalUpdateStatus e (RequestID req) StatusGranted updates w
          in if \<not> fst updated
             then (None, slog LevelWarn ''conditional update to EXPIRED failed, may have been revoked already''
                           (snd updated))
             else
               let w1 = snd (Log e (RequestID req) EventExpired (AccountID req) (ChannelID req)
                               [] ''reconciler'' [] (snd updated));
                   w2 = snd (Notify e \<lparr>wh_RequestID = RequestID req, wh_Status = StatusExpired,
                                        wh_AccountID = AccountID req, wh_ChannelID = ChannelID req,
                                        wh_Actor = ''reconciler'', wh_Details = []\<rparr> w1);
                   w3 = slog LevelInfo ''expired grant revoked'' w2
               in (None, w3))"

text \<open>The loop of \<open>Reconciler.Handle\<close> over the requests of the query, counting the failures.\<close>

fun sweep :: "env \<Rightarrow> JitRequest list \<Rightarrow> int \<Rightarrow> world \<Rightarrow> int \<times> world" where
  "sweep e [] errCount w = (errCount, w)"
| "sweep e (req # rest) errCount w =
     (let r = revokeExpired e req w
      in if fst r \<noteq> None
         then sweep e rest (errCount + 1) (slog LevelError ''failed to revoke expired grant'' (snd r))
         else sweep e rest errCount (snd r))"

definition Handle :: "env \<Rightarrow> world \<Rightarrow> handler_error option \<times> world" where
  "Handle e w =
     (let now = rfc3339 e (clock e);
          w0 = slog LevelInfo ''reconciler run starting'' w
      in case QueryRequestsByStatus e w0 StatusGranted now 0 of
           DbError \<Rightarrow> (Some ErrQueryExpiredGrants, slog LevelError ''failed to query expired grants'' w0)
         | DbOk requests \<Rightarrow>
             let w1 = slog LevelInfo ''found expired grants'' w0;
                 swept = sweep e requests 0 w1;
                 errCount = fst swept
             in if errCount > 0
                then (Some (ErrReconcilerCompletedWithErrors errCount (int (length requests))),
                      slog LevelWarn ''reconciler completed with errors'' (snd swept))
                else (None, slog LevelInfo ''reconciler run completed'' (snd swept)))"

section \<open>Invariant of the config table\<close>

text \<open>Account uniqueness: the bindings of one account all name the same channel.\<close>

definition account_unique :: "world \<Rightarrow> bool" where
  "account_unique w =
     (\<forall>c1 \<in> set (tableConfig w). \<forall>c2 \<in> set (tableConfig w).
        cfg_AccountID c1 = cfg_AccountID c2 \<longrightarrow> cfg_ChannelID c1 = cfg_ChannelID c2)"

section \<open>Sample inputs\<close>

text \<open>
  Concrete inputs at which the theorems below are instantiated. \<open>sample_crypto\<close> stands in
  for the hash primitives at these inputs only (it is not SHA-256): the digest is the first
  byte of the message, the MAC is the key followed by the first byte of the message.
\<close>

definition sample_crypto :: crypto where
  "sample_crypto = \<lparr>sha256_Sum256 = (\<lambda>b. take 1 b), hmac_sha256 = (\<lambda>k m. k @ take 1 m)\<rparr>"

definition sample_nonces :: nonce_db where
  "sample_nonces = \<lparr>nonce_items = Map.empty, nonce_outage = False\<rparr>"

definition sample_headers :: "string \<Rightarrow> string \<Rightarrow> strmap" where
  "sample_headers keyID sig =
     [(''X-JIT-KeyID'', keyID), (''X-JIT-Timestamp'', ''1700000000''),
      (''X-JIT-Nonce'', ''n-1''), (''X-JIT-Signature'', sig)]"

definition sample_env :: env where
  "sample_env =
     \<lparr>clock = 1767225600000000000,
      rfc3339 = (\<lambda>t. if t \<le> 1767225600000000000 then ''2026-01-01T00:00:00Z'' else ''2026-01-01T02:00:00Z''),
      new_uuid = (\<lambda>n. if n = 0 then ''uuid-0'' else if n = 1 then ''uuid-1'' else ''uuid-n''),
      outage = {},
      LookupUserByEmail = (\<lambda>m. if m = ''user@example.com'' then Some ''uid-123'' else None),
      GrantAccess = (\<lambda>a u. None),
      RevokeAccess = (\<lambda>a u. if a = ''222222222222'' then Some ''SSO unavailable'' else None),
      webhook_send = (\<lambda>p i. True),
      sfn_configured = True,
      sfn_start = (\<lambda>i. True)\<rparr>"

definition sample_binding :: "string \<Rightarrow> string \<Rightarrow> int \<Rightarrow> JitConfig" where
  "sample_binding ch acct hours =
     \<lparr>cfg_ChannelID = ch, cfg_AccountID = acct, cfg_ApproverMMUserIDs = [''u_a''],
      cfg_ApprovalPolicy = ''one_of_n'', cfg_AllowSelfApproval = False, cfg_MaxRequestHours = hours,
      cfg_SessionDurationMinutes = 0, cfg_UpdatedAt = ''2025-12-01T00:00:00Z''\<rparr>"

definition sample_request :: "string \<Rightarrow> string \<Rightarrow> string \<Rightarrow> JitRequest" where
  "sample_request rid acct st =
     \<lparr>RequestID = rid, AccountID = acct, ChannelID = ''ch1'', RequesterMMUserID = ''u_r'',
      RequesterEmail = ''user@example.com'', Jira = ''JIRA-1'', Reason = [],
      RequestedDurationMinutes = 60, Status = st, CreatedAt = ''2025-12-31T23:00:00Z'',
      ApprovedAt = [], DeniedAt = [], GrantTime = [], RevokedAt = [], ExpiredAt = [],
      EndTime = ''2026-01-01T00:00:00Z'', ApproverMMUserID = [], ApproverEmail = [],
      IdentityStoreUserID = ''uid-123'', AssignmentStatus = [], ErrorDetails = []\<rparr>"

definition sample_world :: "JitConfig list \<Rightarrow> JitRequest list \<Rightarrow> world" where
  "sample_world cfgs reqs =
     \<lparr>tableConfig = cfgs, indexAccount = cfgs, tableRequests = reqs, tableAudit = [], delivered = [], executions = [],
      logged = [], uuids_drawn = 0\<rparr>"

text \<open>A manual revoke of request \<open>r1\<close>, as a write of another invocation.\<close>

definition sample_manual_revoke :: "world \<Rightarrow> world" where
  "sample_manual_revoke w =
     snd (HandleRevokeRequest sample_env
            \<lparr>rvk_RequestID = ''r1'', rvk_ActorMMUserID = ''u_a'', rvk_ActorEmail = ''approver@example.com''\<rparr> w)"

chapter \<open>Properties\<close>

section \<open>Authenticator\<close>

lemmas auth_eval =
  ValidateRequest_def ValidateRequest_among_def headerValue_def HeaderKeyID_def HeaderTimestamp_def
  HeaderNonce_def HeaderSignature_def ParseInt_def digit_val_def Since_def sat64_def neg64_def
  maxTimestampSkew_def CheckNonce_def StoreNonce_def buildSigningMessage_def computeHMAC_def
  sample_crypto_def sample_nonces_def sample_headers_def hextable_def Unix_def nonce_ttl_def Let_def

subsection \<open>Hex encoding and decimal numbers\<close>

lemma EncodeToString_length: "length (EncodeToString bs) = 2 * length bs"
  by (induction bs) auto

lemma EncodeToString_empty: "EncodeToString bs = [] \<longleftrightarrow> bs = []"
  by (cases bs) auto

lemma hextable_nth_in: "n < 16 \<Longrightarrow> hextable ! n \<in> hexdigits"
  unfolding hextable_def hexdigits_def
  by (auto simp: less_Suc_eq numeral_eq_Suc)

lemma EncodeToString_chars: "set (EncodeToString bs) \<subseteq> hexdigits"
proof (induction bs)
  case Nil
  show ?case by simp
next
  case (Cons b bs)
  have "(of_char b :: nat) < 256" by simp
  then have hi: "(of_char b :: nat) div 16 < 16" by (simp add: div_less_iff_less_mult)
  have lo: "(of_char b :: nat) mod 16 < 16" by simp
  from hextable_nth_in [OF hi] hextable_nth_in [OF lo] Cons show ?case by simp
qed

lemma digit_val_digit_char: "d < 10 \<Longrightarrow> digit_val (digit_char d) = Some d"
  unfolding digit_val_def digit_char_def
  by (auto simp: less_Suc_eq numeral_eq_Suc)

lemma digit_char_not_sign: "d < 10 \<Longrightarrow> digit_char d \<noteq> CHR ''-'' \<and> digit_char d \<noteq> CHR ''+''"
  unfolding digit_char_def
  by (auto simp: less_Suc_eq numeral_eq_Suc)

lemma parse_digits_append:
  "parse_digits acc (xs @ ys) =
     (case parse_digits acc xs of None \<Rightarrow> None | Some a \<Rightarrow> parse_digits a ys)"
  by (induction xs arbitrary: acc) (auto split: option.splits)

lemma parse_digits_digits_of: "parse_digits 0 (digits_of n) = Some n"
proof (induction n rule: digits_of.induct)
  case (1 n)
  show ?case
  proof (cases "n < 10")
    case True
    then show ?thesis by (simp add: digits_of.simps [of n] digit_val_digit_char)
  next
    case False
    with 1 have ih: "parse_digits 0 (digits_of (n div 10)) = Some (n div 10)" by simp
    have "n mod 10 < 10" by simp
    then show ?thesis using False ih
      by (simp add: digits_of.simps [of n] parse_digits_append digit_val_digit_char)
  qed
qed

lemma digits_of_nonempty: "digits_of n \<noteq> []"
  by (subst digits_of.simps) simp

lemma hd_digits_of: "hd (digits_of n) \<noteq> CHR ''-'' \<and> hd (digits_of n) \<noteq> CHR ''+''"
proof (induction n rule: digits_of.induct)
  case (1 n)
  show ?case
  proof (cases "n < 10")
    case True
    then show ?thesis using digit_char_not_sign [of n] by (simp add: digits_of.simps [of n])
  next
    case False
    with 1 show ?thesis by (simp add: digits_of.simps [of n] digits_of_nonempty)
  qed
qed

lemma FormatInt_nonempty: "FormatInt n \<noteq> []"
  by (simp add: FormatInt_def digits_of_nonempty)

lemma ParseInt_FormatInt:
  assumes "- (2 ^ 63) \<le> n" and "n < 2 ^ 63"
  shows "ParseInt (FormatInt n) = Some n"
proof (cases "n < 0")
  case True
  have "nat (- n) \<le> 2 ^ 63" using assms True by (simp add: nat_le_iff)
  then show ?thesis using True
    by (simp add: ParseInt_def FormatInt_def digits_of_nonempty parse_digits_digits_of)
next
  case False
  have "nat n < 2 ^ 63" using assms False by (simp add: nat_less_iff)
  then show ?thesis using False hd_digits_of [of "nat n"]
    by (simp add: ParseInt_def FormatInt_def digits_of_nonempty parse_digits_digits_of Let_def)
qed

lemma Unix_range:
  assumes "0 \<le> now" and "now < 2 ^ 63"
  shows "- (2 ^ 63) \<le> Unix now \<and> Unix now < 2 ^ 63"
proof -
  have "0 \<le> now div 1000000000" using assms(1) by (simp add: pos_imp_zdiv_nonneg_iff)
  moreover have "now div 1000000000 \<le> now div 1" using assms(1) by (intro zdiv_mono2) simp_all
  ultimately show ?thesis using assms(2) by (simp add: Unix_def)
qed

subsection \<open>Uppercasing\<close>

lemma upper_byte_code:
  "(of_char (upper_byte c) :: nat) =
     (if 97 \<le> (of_char c :: nat) \<and> (of_char c :: nat) \<le> 122 then of_char c - 32 else of_char c)"
proof -
  have "(of_char c :: nat) - 32 < 256"
    using nat_of_char_less_256 [of c] by arith
  then have "((of_char c :: nat) - 32) mod 256 = of_char c - 32" by simp
  then show ?thesis unfolding upper_byte_def by auto
qed

lemma upper_byte_not_lower:
  "\<not> (97 \<le> (of_char (upper_byte c) :: nat) \<and> (of_char (upper_byte c) :: nat) \<le> 122)"
  unfolding upper_byte_code by arith

lemma ToUpper_nth:
  "i < length s \<Longrightarrow> (of_char (ToUpper s ! i) :: nat) =
     (if 97 \<le> (of_char (s ! i) :: nat) \<and> (of_char (s ! i) :: nat) \<le> 122
      then of_char (s ! i) - 32 else of_char (s ! i))"
  by (simp add: ToUpper_def upper_byte_code)

lemma ToUpper_no_lower:
  "c \<in> set (ToUpper s) \<Longrightarrow> \<not> (97 \<le> (of_char c :: nat) \<and> (of_char c :: nat) \<le> 122)"
  using upper_byte_not_lower unfolding ToUpper_def by (metis (no_types, lifting) imageE list.set_map)

text \<open>
  C4. The signing message is the timestamp, the nonce, the uppercased method, the path and
  the hex encoding of the SHA-256 of the body, in this order, with one newline between
  neighbours; the signature is the hex encoding of the HMAC-SHA256 of that message under
  the key. The uppercased method has the length of the method, each of its letters a-z
  (codes 97 to 122) replaced by the capital letter (the code less 32) and every other
  byte kept, so that no letter a-z is left in it. Both hex encodings use the digits 0-9
  and a-f only, two for each byte.
\<close>

theorem signing_message_canonical:
  "buildSigningMessage cr timestamp nonce method path body =
     timestamp @ [CHR 0x0A] @ nonce @ [CHR 0x0A] @ ToUpper method @ [CHR 0x0A] @ path @ [CHR 0x0A]
       @ EncodeToString (sha256_Sum256 cr body)
   \<and> length (ToUpper method) = length method
   \<and> (\<forall>i < length method.
         (of_char (ToUpper method ! i) :: nat) =
           (if 97 \<le> (of_char (method ! i) :: nat) \<and> (of_char (method ! i) :: nat) \<le> 122
            then of_char (method ! i) - 32 else of_char (method ! i)))
   \<and> (\<forall>c \<in> set (ToUpper method). \<not> (97 \<le> (of_char c :: nat) \<and> (of_char c :: nat) \<le> 122))
   \<and> computeHMAC cr key (buildSigningMessage cr timestamp nonce method path body) =
       EncodeToString (hmac_sha256 cr key
         (timestamp @ [CHR 0x0A] @ nonce @ [CHR 0x0A] @ ToUpper method @ [CHR 0x0A] @ path @ [CHR 0x0A]
            @ EncodeToString (sha256_Sum256 cr body)))
   \<and> set (EncodeToString (sha256_Sum256 cr body)) \<subseteq> hexdigits
   \<and> length (EncodeToString (sha256_Sum256 cr body)) = 2 * length (sha256_Sum256 cr body)
   \<and> set (computeHMAC cr key msg) \<subseteq> hexdigits
   \<and> length (computeHMAC cr key msg) = 2 * length (hmac_sha256 cr key msg)"
proof -
  have msg: "buildSigningMessage cr timestamp nonce method path body =
     timestamp @ [CHR 0x0A] @ nonce @ [CHR 0x0A] @ ToUpper method @ [CHR 0x0A] @ path @ [CHR 0x0A]
       @ EncodeToString (sha256_Sum256 cr body)"
    by (simp add: buildSigningMessage_def)
  have len: "length (ToUpper method) = length method" by (simp add: ToUpper_def)
  have up: "\<forall>i < length method.
         (of_char (ToUpper method ! i) :: nat) =
           (if 97 \<le> (of_char (method ! i) :: nat) \<and> (of_char (method ! i) :: nat) \<le> 122
            then of_char (method ! i) - 32 else of_char (method ! i))"
    using ToUpper_nth by blast
  have nolow: "\<forall>c \<in> set (ToUpper method). \<not> (97 \<le> (of_char c :: nat) \<and> (of_char c :: nat) \<le> 122)"
    using ToUpper_no_lower by blast
  have mac: "computeHMAC cr key (buildSigningMessage cr timestamp nonce method path body) =
       EncodeToString (hmac_sha256 cr key
         (timestamp @ [CHR 0x0A] @ nonce @ [CHR 0x0A] @ ToUpper method @ [CHR 0x0A] @ path @ [CHR 0x0A]
            @ EncodeToString (sha256_Sum256 cr body)))"
    by (simp add: computeHMAC_def msg)
  have hex: "set (EncodeToString (sha256_Sum256 cr body)) \<subseteq> hexdigits"
    "length (EncodeToString (sha256_Sum256 cr body)) = 2 * length (sha256_Sum256 cr body)"
    "set (computeHMAC cr key msg) \<subseteq> hexdigits"
    "length (computeHMAC cr key msg) = 2 * length (hmac_sha256 cr key msg)"
    by (simp_all add: computeHMAC_def EncodeToString_length EncodeToString_chars)
  from msg len up nolow mac hex show ?thesis by blast
qed

theorem signing_message_canonical_witness:
  "buildSigningMessage sample_crypto ''1700000000'' ''n-1'' ''post'' ''/requests'' ''{}'' =
     ''1700000000'' @ [CHR 0x0A] @ ''n-1'' @ [CHR 0x0A] @ ''POST'' @ [CHR 0x0A] @ ''/requests'' @ [CHR 0x0A] @ ''7b''
   \<and> computeHMAC sample_crypto ''s1''
        (buildSigningMessage sample_crypto ''1700000000'' ''n-1'' ''post'' ''/requests'' ''{}'') = ''733131''
   \<and> (of_char (ToUpper ''post'' ! 0) :: nat) = 80"
proof -
  note t = signing_message_canonical [of sample_crypto "''1700000000''" "''n-1''" "''post''" "''/requests''"
      "''{}''" "''s1''" "[]"]
  have u: "ToUpper ''post'' = ''POST''" by code_simp
  have h: "EncodeToString (sha256_Sum256 sample_crypto ''{}'') = ''7b''"
    by (simp add: sample_crypto_def hextable_def)
  have i: "(0::nat) < length ''post''" by simp
  from t [THEN conjunct1] have a: "buildSigningMessage sample_crypto ''1700000000'' ''n-1'' ''post'' ''/requests'' ''{}'' =
     ''1700000000'' @ [CHR 0x0A] @ ''n-1'' @ [CHR 0x0A] @ ''POST'' @ [CHR 0x0A] @ ''/requests'' @ [CHR 0x0A] @ ''7b''"
    by (simp only: u h)
  from t [THEN conjunct2, THEN conjunct2, THEN conjunct2, THEN conjunct2, THEN conjunct1]
  have b: "computeHMAC sample_crypto ''s1''
        (buildSigningMessage sample_crypto ''1700000000'' ''n-1'' ''post'' ''/requests'' ''{}'') = ''733131''"
    by (simp add: u h sample_crypto_def hextable_def)
  from t [THEN conjunct2, THEN conjunct2, THEN conjunct1, rule_format, OF i]
  have c: "(of_char (ToUpper ''post'' ! 0) :: nat) = 80" by simp
  from a b c show ?thesis by blast
qed

subsection \<open>Validation and the nonce table\<close>

lemma StoreNonce_cases:
  "StoreNonce now db k n ttl =
     (if nonce_outage db \<or> nonce_items db (k, n) \<noteq> None then (False, db)
      else (True, db\<lparr>nonce_items := (nonce_items db)((k, n) \<mapsto> Unix now + ttl)\<rparr>))"
  by (simp add: StoreNonce_def Let_def)

lemma match_any_key_iff:
  "match_any_key cr keys msg sig \<longleftrightarrow> (\<exists>(k, s) \<in> set keys. computeHMAC cr s msg = sig)"
  by (induction keys) auto

lemma match_key_id_imp: "match_key_id cr keys kid msg sig \<Longrightarrow> match_any_key cr keys msg sig"
  by (induction keys) (auto split: if_splits)

lemma ValidateRequest_among_failure:
  assumes "ValidateRequest_among others cr keys now method path headers body db = (Some e, db')"
  shows "db' = db \<or> (e = FailedToStoreNonce \<and> db' = others db)"
  using assms
  by (auto simp: ValidateRequest_among_def Let_def StoreNonce_cases CheckNonce_def
           split: if_splits option.splits prod.splits)

lemma ValidateRequest_among_success:
  assumes "ValidateRequest_among others cr keys now method path headers body db = (None, db')"
  shows "nonce_items db (headerValue headers HeaderKeyID, headerValue headers HeaderNonce) = None
       \<and> nonce_items (others db) (headerValue headers HeaderKeyID, headerValue headers HeaderNonce) = None
       \<and> db' = (others db)\<lparr>nonce_items := (nonce_items (others db))
                 ((headerValue headers HeaderKeyID, headerValue headers HeaderNonce) \<mapsto> Unix now + nonce_ttl)\<rparr>"
  using assms
  by (auto simp: ValidateRequest_among_def Let_def StoreNonce_cases CheckNonce_def
           split: if_splits option.splits prod.splits)

lemma ValidateRequest_among_present:
  assumes "nonce_items db (headerValue headers HeaderKeyID, headerValue headers HeaderNonce) \<noteq> None"
  shows "\<exists>e. ValidateRequest_among others cr keys now method path headers body db = (Some e, db)"
  using assms
  by (auto simp: ValidateRequest_among_def Let_def StoreNonce_cases CheckNonce_def
           split: if_splits option.splits prod.splits)

lemma ValidateRequest_among_conflict:
  assumes "nonce_items (others db) (headerValue headers HeaderKeyID, headerValue headers HeaderNonce) \<noteq> None"
  shows "fst (ValidateRequest_among others cr keys now method path headers body db) \<noteq> None"
  using assms
  by (auto simp: ValidateRequest_among_def Let_def StoreNonce_cases CheckNonce_def
           split: if_splits option.splits prod.splits)

lemma ValidateRequest_success_checks:
  assumes "ValidateRequest cr keys now method path headers body db = (None, db')"
  shows "headerValue headers HeaderKeyID \<noteq> [] \<and> headerValue headers HeaderTimestamp \<noteq> []
       \<and> headerValue headers HeaderNonce \<noteq> [] \<and> headerValue headers HeaderSignature \<noteq> []
       \<and> (\<exists>ts. ParseInt (headerValue headers HeaderTimestamp) = Some ts
              \<and> \<not> (if Since now ts < 0 then neg64 (Since now ts) else Since now ts) > maxTimestampSkew)
       \<and> (\<exists>(k, s) \<in> set keys.
              computeHMAC cr s
                (buildSigningMessage cr (headerValue headers HeaderTimestamp)
                   (headerValue headers HeaderNonce) method path body) = headerValue headers HeaderSignature)"
  using assms match_key_id_imp
  by (auto simp: ValidateRequest_def ValidateRequest_among_def Let_def CheckNonce_def match_any_key_iff
           split: if_splits option.splits prod.splits)

text \<open>
  C3. Validation fails when the pair of the presented key id and nonce is in the nonce
  table, and the table is left as it was. The nonce is recorded by a conditional insert:
  when another invocation has inserted the pair between the lookup and the insert, the
  validation fails as well. A successful validation finds the pair absent and leaves it
  stored, so any later validation that presents the same key id and nonce, against any
  table that still holds the pair, fails.
\<close>

theorem nonce_single_use:
  assumes "kid = headerValue headers HeaderKeyID" and "n = headerValue headers HeaderNonce"
  shows "(nonce_items db (kid, n) \<noteq> None \<longrightarrow>
            fst (ValidateRequest_among others cr keys now method path headers body db) \<noteq> None
          \<and> snd (ValidateRequest_among others cr keys now method path headers body db) = db)
       \<and> (nonce_items (others db) (kid, n) \<noteq> None \<longrightarrow>
            fst (ValidateRequest_among others cr keys now method path headers body db) \<noteq> None)
       \<and> (fst (ValidateRequest_among others cr keys now method path headers body db) = None \<longrightarrow>
            nonce_items (others db) (kid, n) = None
          \<and> snd (ValidateRequest_among others cr keys now method path headers body db) =
              (others db)\<lparr>nonce_items := (nonce_items (others db))((kid, n) \<mapsto> Unix now + nonce_ttl)\<rparr>
          \<and> (\<forall>db2 others2 cr2 keys2 now2 method2 path2 headers2 body2.
                headerValue headers2 HeaderKeyID = kid \<and> headerValue headers2 HeaderNonce = n
                \<and> nonce_items db2 (kid, n) \<noteq> None \<longrightarrow>
                fst (ValidateRequest_among others2 cr2 keys2 now2 method2 path2 headers2 body2 db2) \<noteq> None))"
proof (intro conjI impI allI)
  assume "nonce_items db (kid, n) \<noteq> None"
  then obtain e where "ValidateRequest_among others cr keys now method path headers body db = (Some e, db)"
    using ValidateRequest_among_present [of db headers others cr keys now "method" "path" body] assms by auto
  then show "fst (ValidateRequest_among others cr keys now method path headers body db) \<noteq> None"
    and "snd (ValidateRequest_among others cr keys now method path headers body db) = db"
    by simp_all
next
  assume "nonce_items (others db) (kid, n) \<noteq> None"
  then show "fst (ValidateRequest_among others cr keys now method path headers body db) \<noteq> None"
    using ValidateRequest_among_conflict [of others db headers cr keys now "method" "path" body] assms by simp
next
  assume ok: "fst (ValidateRequest_among others cr keys now method path headers body db) = None"
  then have eq: "ValidateRequest_among others cr keys now method path headers body db =
      (None, snd (ValidateRequest_among others cr keys now method path headers body db))"
    by (simp add: prod_eq_iff)
  from ValidateRequest_among_success [OF eq] assms
  show "nonce_items (others db) (kid, n) = None"
    and "snd (ValidateRequest_among others cr keys now method path headers body db) =
              (others db)\<lparr>nonce_items := (nonce_items (others db))((kid, n) \<mapsto> Unix now + nonce_ttl)\<rparr>"
    by simp_all
next
  fix db2 :: nonce_db and others2 cr2 keys2 now2 method2 path2 headers2 body2
  assume "headerValue headers2 HeaderKeyID = kid \<and> headerValue headers2 HeaderNonce = n
                \<and> nonce_items db2 (kid, n) \<noteq> None"
  then show "fst (ValidateRequest_among others2 cr2 keys2 now2 method2 path2 headers2 body2 db2) \<noteq> None"
    using ValidateRequest_among_present [of db2 headers2 others2 cr2 keys2 now2 method2 path2 body2] by auto
qed

theorem nonce_single_use_witness:
  "ValidateRequest_among (\<lambda>db. db) sample_crypto [(''k1'', ''s1'')] 1700000000500000000 ''POST'' ''/requests''
      (sample_headers ''k1'' ''733131'') ''{}'' sample_nonces =
     (None, sample_nonces\<lparr>nonce_items := [(''k1'', ''n-1'') \<mapsto> 1700000600]\<rparr>)
   \<and> fst (ValidateRequest_among (\<lambda>db. db) sample_crypto [(''k1'', ''s1'')] 1700000001500000000 ''POST'' ''/requests''
          (sample_headers ''k1'' ''733131'') ''{}''
          (sample_nonces\<lparr>nonce_items := [(''k1'', ''n-1'') \<mapsto> 1700000600]\<rparr>)) \<noteq> None
   \<and> snd (ValidateRequest_among (\<lambda>db. db) sample_crypto [(''k1'', ''s1'')] 1700000001500000000 ''POST'' ''/requests''
          (sample_headers ''k1'' ''733131'') ''{}''
          (sample_nonces\<lparr>nonce_items := [(''k1'', ''n-1'') \<mapsto> 1700000600]\<rparr>)) =
       sample_nonces\<lparr>nonce_items := [(''k1'', ''n-1'') \<mapsto> 1700000600]\<rparr>"
proof -
  let ?h = "sample_headers ''k1'' ''733131''"
  let ?db1 = "sample_nonces\<lparr>nonce_items := [(''k1'', ''n-1'') \<mapsto> 1700000600]\<rparr>"
  have k: "''k1'' = headerValue ?h HeaderKeyID" and n: "''n-1'' = headerValue ?h HeaderNonce"
    by (simp_all add: headerValue_def sample_headers_def HeaderKeyID_def HeaderNonce_def)
  have first: "ValidateRequest_among (\<lambda>db. db) sample_crypto [(''k1'', ''s1'')] 1700000000500000000 ''POST'' ''/requests''
          ?h ''{}'' sample_nonces = (None, ?db1)"
    by (simp add: auth_eval)
  have present: "nonce_items ?db1 (''k1'', ''n-1'') \<noteq> None"
    by (simp add: sample_nonces_def)
  note replay = nonce_single_use [OF k n, of ?db1 "\<lambda>db. db" sample_crypto "[(''k1'', ''s1'')]"
      1700000001500000000 "''POST''" "''/requests''" "''{}''", THEN conjunct1, THEN mp, OF present]
  from first replay show ?thesis by blast
qed

text \<open>
  C10. A validation that fails leaves the nonce table as it was, so the presented nonce is
  not stored and a later request is validated against the same table. The table changes
  only when the validation succeeds; then all headers were present, the timestamp was
  parsed and within the skew, the nonce was absent, the signature matched a configured
  secret, and the one change is the insertion of the presented key id and nonce.
\<close>

theorem failed_validation_stores_nothing:
  assumes "ValidateRequest cr keys now method path headers body db = (r, db')"
  shows "(r \<noteq> None \<longrightarrow> db' = db
            \<and> ValidateRequest cr2 keys2 now2 method2 path2 headers2 body2 db' =
                ValidateRequest cr2 keys2 now2 method2 path2 headers2 body2 db)
       \<and> (db' \<noteq> db \<longrightarrow> r = None)
       \<and> (r = None \<longrightarrow>
            headerValue headers HeaderKeyID \<noteq> [] \<and> headerValue headers HeaderTimestamp \<noteq> []
          \<and> headerValue headers HeaderNonce \<noteq> [] \<and> headerValue headers HeaderSignature \<noteq> []
          \<and> (\<exists>ts. ParseInt (headerValue headers HeaderTimestamp) = Some ts
                 \<and> \<not> (if Since now ts < 0 then neg64 (Since now ts) else Since now ts) > maxTimestampSkew)
          \<and> nonce_items db (headerValue headers HeaderKeyID, headerValue headers HeaderNonce) = None
          \<and> (\<exists>(k, s) \<in> set keys.
                computeHMAC cr s
                  (buildSigningMessage cr (headerValue headers HeaderTimestamp)
                     (headerValue headers HeaderNonce) method path body) = headerValue headers HeaderSignature)
          \<and> db' = db\<lparr>nonce_items := (nonce_items db)
                 ((headerValue headers HeaderKeyID, headerValue headers HeaderNonce) \<mapsto> Unix now + nonce_ttl)\<rparr>)"
proof -
  have fail: "db' = db" if "r \<noteq> None"
  proof -
    from that obtain e where "r = Some e" by auto
    with assms ValidateRequest_among_failure [of "\<lambda>db. db" cr keys now "method" "path" headers body db e db']
    show ?thesis by (auto simp: ValidateRequest_def)
  qed
  have ok: "headerValue headers HeaderKeyID \<noteq> [] \<and> headerValue headers HeaderTimestamp \<noteq> []
          \<and> headerValue headers HeaderNonce \<noteq> [] \<and> headerValue headers HeaderSignature \<noteq> []
          \<and> (\<exists>ts. ParseInt (headerValue headers HeaderTimestamp) = Some ts
                 \<and> \<not> (if Since now ts < 0 then neg64 (Since now ts) else Since now ts) > maxTimestampSkew)
          \<and> nonce_items db (headerValue headers HeaderKeyID, headerValue headers HeaderNonce) = None
          \<and> (\<exists>(k, s) \<in> set keys.
                computeHMAC cr s
                  (buildSigningMessage cr (headerValue headers HeaderTimestamp)
                     (headerValue headers HeaderNonce) method path body) = headerValue headers HeaderSignature)
          \<and> db' = db\<lparr>nonce_items := (nonce_items db)
                 ((headerValue headers HeaderKeyID, headerValue headers HeaderNonce) \<mapsto> Unix now + nonce_ttl)\<rparr>"
    if "r = None"
  proof -
    from that assms have eq: "ValidateRequest cr keys now method path headers body db = (None, db')" by simp
    from ValidateRequest_success_checks [OF eq]
      ValidateRequest_among_success [of "\<lambda>db. db" cr keys now "method" "path" headers body db db'] eq
    show ?thesis by (simp add: ValidateRequest_def)
  qed
  from fail ok show ?thesis by blast
qed

theorem failed_validation_stores_nothing_witness:
  "ValidateRequest sample_crypto [(''k1'', ''s1'')] 1700000000500000000 ''POST'' ''/requests''
      (sample_headers ''k1'' ''deadbeef'') ''{}'' sample_nonces = (Some InvalidSignature, sample_nonces)
   \<and> ValidateRequest sample_crypto [(''k1'', ''s1'')] 1700000001500000000 ''POST'' ''/requests''
        (sample_headers ''k1'' ''733131'') ''{}'' sample_nonces =
       (None, sample_nonces\<lparr>nonce_items := [(''k1'', ''n-1'') \<mapsto> 1700000601]\<rparr>)
   \<and> nonce_items sample_nonces (headerValue (sample_headers ''k1'' ''733131'') HeaderKeyID,
        headerValue (sample_headers ''k1'' ''733131'') HeaderNonce) = None"
proof -
  have bad: "ValidateRequest sample_crypto [(''k1'', ''s1'')] 1700000000500000000 ''POST'' ''/requests''
      (sample_headers ''k1'' ''deadbeef'') ''{}'' sample_nonces = (Some InvalidSignature, sample_nonces)"
    by (simp add: auth_eval)
  have good: "ValidateRequest sample_crypto [(''k1'', ''s1'')] 1700000001500000000 ''POST'' ''/requests''
        (sample_headers ''k1'' ''733131'') ''{}'' sample_nonces =
       (None, sample_nonces\<lparr>nonce_items := [(''k1'', ''n-1'') \<mapsto> 1700000601]\<rparr>)"
    by (simp add: auth_eval)
  have failed: "Some InvalidSignature \<noteq> None" by simp
  note unchanged = failed_validation_stores_nothing [OF bad, THEN conjunct1, THEN mp, OF failed, THEN conjunct1]
  from failed_validation_stores_nothing [OF good, THEN conjunct2, THEN conjunct2, THEN mp, OF refl]
  have "nonce_items sample_nonces (headerValue (sample_headers ''k1'' ''733131'') HeaderKeyID,
        headerValue (sample_headers ''k1'' ''733131'') HeaderNonce) = None"
    by blast
  with bad good unchanged show ?thesis by blast
qed

subsection \<open>Signed requests and key rotation\<close>

lemma headerValue_SignPayload:
  "headerValue (SignPayload cr now uuid keyID secret method path body) HeaderKeyID = keyID"
  "headerValue (SignPayload cr now uuid keyID secret method path body) HeaderTimestamp = FormatInt (Unix now)"
  "headerValue (SignPayload cr now uuid keyID secret method path body) HeaderNonce = uuid"
  "headerValue (SignPayload cr now uuid keyID secret method path body) HeaderSignature =
     computeHMAC cr secret (buildSigningMessage cr (FormatInt (Unix now)) uuid method path body)"
  by (simp_all add: headerValue_def SignPayload_def Let_def HeaderKeyID_def HeaderTimestamp_def
        HeaderNonce_def HeaderSignature_def)

lemma skew_fresh:
  assumes "\<bar>now - ts * 1000000000\<bar> \<le> maxTimestampSkew"
  shows "\<not> (if Since now ts < 0 then neg64 (Since now ts) else Since now ts) > maxTimestampSkew"
  using assms by (auto simp: Since_def sat64_def neg64_def maxTimestampSkew_def)

lemma matched_any:
  "(if \<not> match_key_id cr keys kid msg sig then match_any_key cr keys msg sig
    else match_key_id cr keys kid msg sig) = match_any_key cr keys msg sig"
  using match_key_id_imp by auto

lemma ValidateRequest_signed:
  assumes pres: "presented \<noteq> []" and uuid: "uuid \<noteq> []"
      and mac: "hmac_sha256 cr secret (buildSigningMessage cr (FormatInt (Unix signed_at)) uuid method path body) \<noteq> []"
      and clk: "0 \<le> signed_at" "signed_at < 2 ^ 63"
      and fresh: "\<bar>now - Unix signed_at * 1000000000\<bar> \<le> maxTimestampSkew"
      and unused: "nonce_items db (presented, uuid) = None" and up: "\<not> nonce_outage db"
  shows "ValidateRequest cr keys now method path
           (SignPayload cr signed_at uuid presented secret method path body) body db =
         (if match_any_key cr keys (buildSigningMessage cr (FormatInt (Unix signed_at)) uuid method path body)
               (computeHMAC cr secret (buildSigningMessage cr (FormatInt (Unix signed_at)) uuid method path body))
          then (None, db\<lparr>nonce_items := (nonce_items db)((presented, uuid) \<mapsto> Unix now + nonce_ttl)\<rparr>)
          else (Some InvalidSignature, db))"
proof -
  have p: "ParseInt (FormatInt (Unix signed_at)) = Some (Unix signed_at)"
    using Unix_range [OF clk] by (intro ParseInt_FormatInt) simp_all
  have s: "computeHMAC cr secret (buildSigningMessage cr (FormatInt (Unix signed_at)) uuid method path body) \<noteq> []"
    using mac by (simp add: computeHMAC_def EncodeToString_empty)
  show ?thesis
    unfolding ValidateRequest_def ValidateRequest_among_def
    using pres uuid s unused up skew_fresh [OF fresh]
    by (simp add: headerValue_SignPayload FormatInt_nonempty p CheckNonce_def StoreNonce_cases
          matched_any Let_def del: match_any_key.simps match_key_id.simps)
qed

text \<open>
  C5 (as amended). A request signed by \<open>SignPayload\<close> with a secret of the configured key set,
  under any key id that is not the empty string (the id of that secret, the id of
  another secret, or an id that is not configured), is accepted, given a timestamp within the
  skew and an unused nonce, and the nonce is recorded under the presented key id. Once the
  key is removed from the set, the request is rejected as having an invalid signature,
  provided that no remaining secret yields the same MAC.
\<close>

theorem rotation_continuity:
  assumes "(kid, secret) \<in> set keys"
      and "presented \<noteq> []" and "uuid \<noteq> []"
      and "hmac_sha256 cr secret (buildSigningMessage cr (FormatInt (Unix signed_at)) uuid method path body) \<noteq> []"
      and "0 \<le> signed_at" and "signed_at < 2 ^ 63"
      and "\<bar>now - Unix signed_at * 1000000000\<bar> \<le> maxTimestampSkew"
      and "nonce_items db (presented, uuid) = None" and "\<not> nonce_outage db"
  shows "ValidateRequest cr keys now method path
           (SignPayload cr signed_at uuid presented secret method path body) body db =
           (None, db\<lparr>nonce_items := (nonce_items db)((presented, uuid) \<mapsto> Unix now + nonce_ttl)\<rparr>)
       \<and> ((\<forall>(k, s) \<in> set (delete_key kid keys).
              computeHMAC cr s (buildSigningMessage cr (FormatInt (Unix signed_at)) uuid method path body) \<noteq>
              computeHMAC cr secret (buildSigningMessage cr (FormatInt (Unix signed_at)) uuid method path body)) \<longrightarrow>
           ValidateRequest cr (delete_key kid keys) now method path
             (SignPayload cr signed_at uuid presented secret method path body) body db =
             (Some InvalidSignature, db))"
proof -
  have "match_any_key cr keys (buildSigningMessage cr (FormatInt (Unix signed_at)) uuid method path body)
          (computeHMAC cr secret (buildSigningMessage cr (FormatInt (Unix signed_at)) uuid method path body))"
    using assms(1) by (auto simp: match_any_key_iff)
  then have accept: "ValidateRequest cr keys now method path
           (SignPayload cr signed_at uuid presented secret method path body) body db =
           (None, db\<lparr>nonce_items := (nonce_items db)((presented, uuid) \<mapsto> Unix now + nonce_ttl)\<rparr>)"
    using ValidateRequest_signed [OF assms(2-9), of keys] by simp
  have reject: "ValidateRequest cr (delete_key kid keys) now method path
             (SignPayload cr signed_at uuid presented secret method path body) body db =
             (Some InvalidSignature, db)"
    if "\<forall>(k, s) \<in> set (delete_key kid keys).
              computeHMAC cr s (buildSigningMessage cr (FormatInt (Unix signed_at)) uuid method path body) \<noteq>
              computeHMAC cr secret (buildSigningMessage cr (FormatInt (Unix signed_at)) uuid method path body)"
  proof -
    from that have "\<not> match_any_key cr (delete_key kid keys)
          (buildSigningMessage cr (FormatInt (Unix signed_at)) uuid method path body)
          (computeHMAC cr secret (buildSigningMessage cr (FormatInt (Unix signed_at)) uuid method path body))"
      by (auto simp: match_any_key_iff)
    then show ?thesis
      using ValidateRequest_signed [OF assms(2-9), of "delete_key kid keys"] by simp
  qed
  from accept reject show ?thesis by blast
qed

lemma sample_signed:
  "SignPayload sample_crypto 1700000000000000000 ''n-1'' keyID ''s1'' ''POST'' ''/requests'' ''{}'' =
     sample_headers keyID ''733131''"
  by (simp add: auth_eval SignPayload_def FormatInt_def digits_of.simps [of "numeral n" for n]
        digits_of.simps [of "Suc 0"] digit_char_def)

theorem rotation_continuity_witness:
  "ValidateRequest sample_crypto [(''k-old'', ''s1''), (''k-new'', ''s2'')] 1700000000500000000 ''POST'' ''/requests''
     (SignPayload sample_crypto 1700000000000000000 ''n-1'' ''k-new'' ''s1'' ''POST'' ''/requests'' ''{}'')
     ''{}'' sample_nonces =
     (None, sample_nonces\<lparr>nonce_items := (nonce_items sample_nonces)((''k-new'', ''n-1'') \<mapsto>
        Unix 1700000000500000000 + nonce_ttl)\<rparr>)
   \<and> ValidateRequest sample_crypto (delete_key ''k-old'' [(''k-old'', ''s1''), (''k-new'', ''s2'')])
       1700000000500000000 ''POST'' ''/requests''
       (SignPayload sample_crypto 1700000000000000000 ''n-1'' ''k-new'' ''s1'' ''POST'' ''/requests'' ''{}'')
       ''{}'' sample_nonces = (Some InvalidSignature, sample_nonces)"
proof -
  have a: "(''k-old'', ''s1'') \<in> set [(''k-old'', ''s1''), (''k-new'', ''s2'')]" by simp
  have b: "''k-new'' \<noteq> []" and c: "''n-1'' \<noteq> []" by simp_all
  have d: "hmac_sha256 sample_crypto ''s1''
      (buildSigningMessage sample_crypto (FormatInt (Unix 1700000000000000000)) ''n-1'' ''POST'' ''/requests'' ''{}'') \<noteq> []"
    by (simp add: sample_crypto_def)
  have e: "(0::int) \<le> 1700000000000000000" and f: "(1700000000000000000::int) < 2 ^ 63" by simp_all
  have g: "\<bar>1700000000500000000 - Unix 1700000000000000000 * 1000000000\<bar> \<le> maxTimestampSkew"
    by (simp add: Unix_def maxTimestampSkew_def)
  have h: "nonce_items sample_nonces (''k-new'', ''n-1'') = None" and i: "\<not> nonce_outage sample_nonces"
    by (simp_all add: sample_nonces_def)
  have j: "\<forall>(k, s) \<in> set (delete_key ''k-old'' [(''k-old'', ''s1''), (''k-new'', ''s2'')]).
      computeHMAC sample_crypto s
        (buildSigningMessage sample_crypto (FormatInt (Unix 1700000000000000000)) ''n-1'' ''POST'' ''/requests'' ''{}'') \<noteq>
      computeHMAC sample_crypto ''s1''
        (buildSigningMessage sample_crypto (FormatInt (Unix 1700000000000000000)) ''n-1'' ''POST'' ''/requests'' ''{}'')"
    by (simp add: delete_key_def computeHMAC_def sample_crypto_def hextable_def)
  note t = rotation_continuity [OF a b c d e f g h i]
  from t [THEN conjunct1] t [THEN conjunct2, THEN mp, OF j] show ?thesis by blast
qed

text \<open>
  C5 as stated fails for a key that is configured under the empty key id: a request signed
  under it is rejected for missing headers.
\<close>

theorem rotation_empty_key_id_counterexample:
  "ValidateRequest sample_crypto [([], ''s1'')] 1700000000500000000 ''POST'' ''/requests''
     (SignPayload sample_crypto 1700000000000000000 ''n-1'' [] ''s1'' ''POST'' ''/requests'' ''{}'')
     ''{}'' sample_nonces = (Some MissingHeaders, sample_nonces)"
  by (simp add: sample_signed) (simp add: auth_eval)

section \<open>Request service\<close>

subsection \<open>What the operations leave alone\<close>

lemma slog_fields [simp]:
  "tableConfig (slog l m w) = tableConfig w"
  "indexAccount (slog l m w) = indexAccount w"
  "tableRequests (slog l m w) = tableRequests w"
  "tableAudit (slog l m w) = tableAudit w"
  "delivered (slog l m w) = delivered w"
  "executions (slog l m w) = executions w"
  "uuids_drawn (slog l m w) = uuids_drawn w"
  "logged (slog l m w) = logged w @ [(l, m)]"
  by (simp_all add: slog_def)

lemma Log_fields [simp]:
  "tableConfig (snd (Log e rid ty acct ch actor mail details w)) = tableConfig w"
  "indexAccount (snd (Log e rid ty acct ch actor mail details w)) = indexAccount w"
  "tableRequests (snd (Log e rid ty acct ch actor mail details w)) = tableRequests w"
  "delivered (snd (Log e rid ty acct ch actor mail details w)) = delivered w"
  "executions (snd (Log e rid ty acct ch actor mail details w)) = executions w"
  by (simp_all add: Log_def PutAuditEvent_def uuid_New_def Let_def)

lemma Notify_attempts_fields [simp]:
  "tableConfig (snd (Notify_attempts e p i k w)) = tableConfig w"
  "indexAccount (snd (Notify_attempts e p i k w)) = indexAccount w"
  "tableRequests (snd (Notify_attempts e p i k w)) = tableRequests w"
  "tableAudit (snd (Notify_attempts e p i k w)) = tableAudit w"
  by (induction e p i k w rule: Notify_attempts.induct; simp add: Let_def)+

lemma Notify_fields [simp]:
  "tableConfig (snd (Notify e p w)) = tableConfig w"
  "indexAccount (snd (Notify e p w)) = indexAccount w"
  "tableRequests (snd (Notify e p w)) = tableRequests w"
  "tableAudit (snd (Notify e p w)) = tableAudit w"
  by (simp_all add: Notify_def)

lemma StartExecution_fields [simp]:
  "tableConfig (snd (StartExecution e i w)) = tableConfig w"
  "indexAccount (snd (StartExecution e i w)) = indexAccount w"
  "tableRequests (snd (StartExecution e i w)) = tableRequests w"
  "tableAudit (snd (StartExecution e i w)) = tableAudit w"
  by (simp_all add: StartExecution_def)

lemma set_attribute_RequestID [simp]: "RequestID (set_attribute kv r) = RequestID r"
  by (simp add: set_attribute_def)

lemma fold_set_attribute_RequestID [simp]: "RequestID (fold set_attribute updates r) = RequestID r"
  by (induction updates arbitrary: r) simp_all

lemma find_map_update:
  assumes "\<And>r. RequestID (g r) = RequestID r"
  shows "find (\<lambda>r. RequestID r = rid) (map (\<lambda>r. if RequestID r = rid then g r else r) xs) =
         map_option g (find (\<lambda>r. RequestID r = rid) xs)"
  using assms by (induction xs) auto

lemma find_map_other:
  assumes "\<And>r. RequestID (g r) = RequestID r" and "rid' \<noteq> rid"
  shows "find (\<lambda>r. RequestID r = rid') (map (\<lambda>r. if RequestID r = rid then g r else r) xs) =
         find (\<lambda>r. RequestID r = rid') xs"
  using assms by (induction xs) auto

lemma ConditionalUpdateStatus_applies:
  assumes "OpConditionalUpdateStatus \<notin> outage e"
      and "find (\<lambda>r. RequestID r = rid) (tableRequests w) = Some r0" and "Status r0 = expected"
  shows "ConditionalUpdateStatus e rid expected updates w =
           (True, w\<lparr>tableRequests :=
                      map (\<lambda>r. if RequestID r = rid then fold set_attribute updates r else r) (tableRequests w)\<rparr>)"
  using assms by (simp add: ConditionalUpdateStatus_def)

lemma ConditionalUpdateStatus_refused:
  assumes "\<not> fst (ConditionalUpdateStatus e rid expected updates w)"
  shows "snd (ConditionalUpdateStatus e rid expected updates w) = w"
  using assms by (auto simp: ConditionalUpdateStatus_def split: if_splits option.splits)

lemma ConditionalUpdateStatus_fields [simp]:
  "tableConfig (snd (ConditionalUpdateStatus e rid expected updates w)) = tableConfig w"
  "indexAccount (snd (ConditionalUpdateStatus e rid expected updates w)) = indexAccount w"
  "tableAudit (snd (ConditionalUpdateStatus e rid expected updates w)) = tableAudit w"
  by (auto simp: ConditionalUpdateStatus_def split: if_splits option.splits)

lemma GetRequest_found:
  assumes "GetRequest e w rid = DbOk (Some req)"
  shows "OpGetRequest \<notin> outage e" and "find (\<lambda>r. RequestID r = rid) (tableRequests w) = Some req"
    and "RequestID req = rid"
  using assms by (auto simp: GetRequest_def find_Some_iff split: if_splits)

lemmas svc_eval =
  GetConfig_def PutConfig_def GetChannelForAccount_def gsi_account_propagate_def CreateRequest_def GetRequest_def
  ConditionalUpdateStatus_def QueryRequestsByStatus_def PutAuditEvent_def set_attribute_def
  Log_def Notify_def StartExecution_def slog_def uuid_New_def wrap64_def
  sample_env_def sample_binding_def sample_request_def sample_world_def Let_def

text \<open>
  What approve and deny do when the binding of a PENDING request is gone: the approver
  check (and, in approve, the self-approval check) is not made. With the required fields
  present and the conditional update available the operation succeeds for any actor, and
  the request is returned and stored as APPROVED, respectively DENIED.
\<close>

lemma missing_binding_skips_approver_check:
  assumes "GetRequest e w rid = DbOk (Some req)" and "Status req = StatusPending"
      and "GetConfig e w (ChannelID req) (AccountID req) = DbOk None"
      and "OpConditionalUpdateStatus \<notin> outage e" and "rid \<noteq> []"
  shows "(apr_RequestID a = rid \<and> apr_ApproverMMUserID a \<noteq> [] \<and> apr_ApproverEmail a \<noteq> [] \<longrightarrow>
            fst (HandleApproveRequest e a w) =
              Inr (Some (req\<lparr>Status := StatusApproved, ApprovedAt := rfc3339 e (clock e),
                               ApproverMMUserID := apr_ApproverMMUserID a, ApproverEmail := apr_ApproverEmail a\<rparr>))
          \<and> find (\<lambda>r. RequestID r = rid) (tableRequests (snd (HandleApproveRequest e a w))) =
              Some (req\<lparr>Status := StatusApproved, ApprovedAt := rfc3339 e (clock e),
                         ApproverMMUserID := apr_ApproverMMUserID a, ApproverEmail := apr_ApproverEmail a\<rparr>))
       \<and> (dny_RequestID d = rid \<and> dny_DenierMMUserID d \<noteq> [] \<and> dny_DenierEmail d \<noteq> [] \<longrightarrow>
            fst (HandleDenyRequest e d w) =
              Inr (Some (req\<lparr>Status := StatusDenied, DeniedAt := rfc3339 e (clock e),
                               ApproverMMUserID := dny_DenierMMUserID d, ApproverEmail := dny_DenierEmail d\<rparr>))
          \<and> find (\<lambda>r. RequestID r = rid) (tableRequests (snd (HandleDenyRequest e d w))) =
              Some (req\<lparr>Status := StatusDenied, DeniedAt := rfc3339 e (clock e),
                         ApproverMMUserID := dny_DenierMMUserID d, ApproverEmail := dny_DenierEmail d\<rparr>))"
proof -
  note found = GetRequest_found [OF assms(1)]
  have upd: "ConditionalUpdateStatus e rid StatusPending updates w =
           (True, w\<lparr>tableRequests :=
                      map (\<lambda>r. if RequestID r = rid then fold set_attribute updates r else r) (tableRequests w)\<rparr>)"
    for updates
    using ConditionalUpdateStatus_applies [OF assms(4) found(2)] assms(2) by simp
  have approve: "fst (HandleApproveRequest e a w) =
              Inr (Some (req\<lparr>Status := StatusApproved, ApprovedAt := rfc3339 e (clock e),
                               ApproverMMUserID := apr_ApproverMMUserID a, ApproverEmail := apr_ApproverEmail a\<rparr>))
          \<and> find (\<lambda>r. RequestID r = rid) (tableRequests (snd (HandleApproveRequest e a w))) =
              Some (req\<lparr>Status := StatusApproved, ApprovedAt := rfc3339 e (clock e),
                         ApproverMMUserID := apr_ApproverMMUserID a, ApproverEmail := apr_ApproverEmail a\<rparr>)"
    if "apr_RequestID a = rid \<and> apr_ApproverMMUserID a \<noteq> [] \<and> apr_ApproverEmail a \<noteq> []"
    using that assms found
    by (simp add: HandleApproveRequest_def Let_def upd GetRequest_def find_map_update set_attribute_def)
  have deny: "fst (HandleDenyRequest e d w) =
              Inr (Some (req\<lparr>Status := StatusDenied, DeniedAt := rfc3339 e (clock e),
                               ApproverMMUserID := dny_DenierMMUserID d, ApproverEmail := dny_DenierEmail d\<rparr>))
          \<and> find (\<lambda>r. RequestID r = rid) (tableRequests (snd (HandleDenyRequest e d w))) =
              Some (req\<lparr>Status := StatusDenied, DeniedAt := rfc3339 e (clock e),
                         ApproverMMUserID := dny_DenierMMUserID d, ApproverEmail := dny_DenierEmail d\<rparr>)"
    if "dny_RequestID d = rid \<and> dny_DenierMMUserID d \<noteq> [] \<and> dny_DenierEmail d \<noteq> []"
    using that assms found
    by (simp add: HandleDenyRequest_def Let_def upd GetRequest_def find_map_update set_attribute_def)
  from approve deny show ?thesis by blast
qed


text \<open>
  C1. The claim states the intended behaviour; the code does not have it. Both handlers
  announce the check in their comments (that the approver, respectively the denier, is an
  authorized approver), and creation rejects a missing binding, but approve and deny make
  the check only when the binding is found. At the input below the config table is empty,
  the request \<open>r1\<close> is PENDING and the actor \<open>u_x\<close> has never been an approver: the claim
  says that approve and deny fail as not authorized and the request stays PENDING; the
  code approves (APPROVED is stored, the APPROVED audit event is written and the grant
  workflow is started) and, on the same starting state, denies.
\<close>

theorem approve_deny_without_binding_fail_open:
  "fst (HandleApproveRequest sample_env
          \<lparr>apr_RequestID = ''r1'', apr_ApproverMMUserID = ''u_x'', apr_ApproverEmail = ''x@example.com''\<rparr>
          (sample_world [] [sample_request ''r1'' ''111111111111'' StatusPending])) =
     Inr (Some ((sample_request ''r1'' ''111111111111'' StatusPending)
            \<lparr>Status := StatusApproved, ApprovedAt := ''2026-01-01T00:00:00Z'',
             ApproverMMUserID := ''u_x'', ApproverEmail := ''x@example.com''\<rparr>))
   \<and> map Status (tableRequests (snd (HandleApproveRequest sample_env
          \<lparr>apr_RequestID = ''r1'', apr_ApproverMMUserID = ''u_x'', apr_ApproverEmail = ''x@example.com''\<rparr>
          (sample_world [] [sample_request ''r1'' ''111111111111'' StatusPending])))) = [StatusApproved]
   \<and> map ev_EventType (tableAudit (snd (HandleApproveRequest sample_env
          \<lparr>apr_RequestID = ''r1'', apr_ApproverMMUserID = ''u_x'', apr_ApproverEmail = ''x@example.com''\<rparr>
          (sample_world [] [sample_request ''r1'' ''111111111111'' StatusPending])))) = [EventApproved]
   \<and> map sfi_RequestID (executions (snd (HandleApproveRequest sample_env
          \<lparr>apr_RequestID = ''r1'', apr_ApproverMMUserID = ''u_x'', apr_ApproverEmail = ''x@example.com''\<rparr>
          (sample_world [] [sample_request ''r1'' ''111111111111'' StatusPending])))) = [''r1'']
   \<and> fst (HandleDenyRequest sample_env
          \<lparr>dny_RequestID = ''r1'', dny_DenierMMUserID = ''u_x'', dny_DenierEmail = ''x@example.com'',
           dny_Reason = []\<rparr>
          (sample_world [] [sample_request ''r1'' ''111111111111'' StatusPending])) =
     Inr (Some ((sample_request ''r1'' ''111111111111'' StatusPending)
            \<lparr>Status := StatusDenied, DeniedAt := ''2026-01-01T00:00:00Z'',
             ApproverMMUserID := ''u_x'', ApproverEmail := ''x@example.com''\<rparr>))
   \<and> map Status (tableRequests (snd (HandleDenyRequest sample_env
          \<lparr>dny_RequestID = ''r1'', dny_DenierMMUserID = ''u_x'', dny_DenierEmail = ''x@example.com'',
           dny_Reason = []\<rparr>
          (sample_world [] [sample_request ''r1'' ''111111111111'' StatusPending])))) = [StatusDenied]"
  by (simp add: HandleApproveRequest_def HandleDenyRequest_def svc_eval)

text \<open>
  C2 (as amended). Manual revoke of a request that is stored as REVOKED or EXPIRED returns
  an error (the status is not GRANTED, or an earlier check of the input failed) and changes
  nothing: no audit event, no webhook, no update of the request.
\<close>

theorem revoke_of_terminal_request:
  assumes "GetRequest e w (rvk_RequestID input) = DbOk (Some req)"
      and "Status req = StatusRevoked \<or> Status req = StatusExpired"
  shows "(\<exists>err. fst (HandleRevokeRequest e input w) = Inl err)
       \<and> snd (HandleRevokeRequest e input w) = w
       \<and> (rvk_RequestID input \<noteq> [] \<and> rvk_ActorMMUserID input \<noteq> [] \<and> rvk_ActorEmail input \<noteq> [] \<longrightarrow>
            fst (HandleRevokeRequest e input w) =
              Inl (ErrWrongStatus (rvk_RequestID input) (Status req) StatusGranted))"
  using assms by (auto simp: HandleRevokeRequest_def)

theorem revoke_of_terminal_request_witness:
  "fst (HandleRevokeRequest sample_env
          \<lparr>rvk_RequestID = ''r1'', rvk_ActorMMUserID = ''u_a'', rvk_ActorEmail = ''a@example.com''\<rparr>
          (sample_world [] [sample_request ''r1'' ''111111111111'' StatusExpired])) =
     Inl (ErrWrongStatus ''r1'' StatusExpired StatusGranted)
   \<and> snd (HandleRevokeRequest sample_env
          \<lparr>rvk_RequestID = ''r1'', rvk_ActorMMUserID = ''u_a'', rvk_ActorEmail = ''a@example.com''\<rparr>
          (sample_world [] [sample_request ''r1'' ''111111111111'' StatusExpired])) =
     sample_world [] [sample_request ''r1'' ''111111111111'' StatusExpired]"
proof -
  let ?i = "\<lparr>rvk_RequestID = ''r1'', rvk_ActorMMUserID = ''u_a'', rvk_ActorEmail = ''a@example.com''\<rparr>"
  let ?w = "sample_world [] [sample_request ''r1'' ''111111111111'' StatusExpired]"
  have a: "GetRequest sample_env ?w (rvk_RequestID ?i) = DbOk (Some (sample_request ''r1'' ''111111111111'' StatusExpired))"
    by (simp add: svc_eval)
  have b: "Status (sample_request ''r1'' ''111111111111'' StatusExpired) = StatusRevoked
         \<or> Status (sample_request ''r1'' ''111111111111'' StatusExpired) = StatusExpired"
    by (simp add: sample_request_def)
  have c: "rvk_RequestID ?i \<noteq> [] \<and> rvk_ActorMMUserID ?i \<noteq> [] \<and> rvk_ActorEmail ?i \<noteq> []" by simp
  note t = revoke_of_terminal_request [OF a b]
  from t [THEN conjunct2, THEN conjunct1] t [THEN conjunct2, THEN conjunct2, THEN mp, OF c]
  show ?thesis by (simp add: sample_request_def)
qed

text \<open>
  C2 as stated fails: manual revoke of a request that is already REVOKED returns an error,
  not success.
\<close>

theorem revoke_twice_counterexample:
  "fst (HandleRevokeRequest sample_env
          \<lparr>rvk_RequestID = ''r1'', rvk_ActorMMUserID = ''u_a'', rvk_ActorEmail = ''a@example.com''\<rparr>
          (sample_world [] [sample_request ''r1'' ''111111111111'' StatusRevoked])) =
     Inl (ErrWrongStatus ''r1'' StatusRevoked StatusGranted)"
  by (simp add: HandleRevokeRequest_def svc_eval)

text \<open>
  C6 (as amended). When no binding exists for the channel and account, or the requested
  duration exceeds the limit of the binding, \<open>max_request_hours \<times> 60\<close> as a signed 64-bit
  product, and this limit is positive, creation fails with a validation error and leaves
  the world as it was (no request row, no audit event): the error is one of the
  validation errors of \<open>HandleCreateRequest\<close>, which the router answers with status 400,
  and for an input with its required fields and a positive duration it is the missing
  binding, respectively the exceeded maximum. When the limit is not positive the duration
  is not checked: an input with its required fields, a positive duration and a requester
  known to the identity provider is stored as a PENDING request of that duration.
\<close>

theorem create_rejected_without_binding_or_over_limit:
  "((GetConfig e w (cri_ChannelID input) (cri_AccountID input) = DbOk None
      \<or> (\<exists>cfg. GetConfig e w (cri_ChannelID input) (cri_AccountID input) = DbOk (Some cfg)
            \<and> 0 < wrap64 (cfg_MaxRequestHours cfg * 60)
            \<and> wrap64 (cfg_MaxRequestHours cfg * 60) < cri_RequestedDurationMinutes input)) \<longrightarrow>
      snd (HandleCreateRequest e input w) = w
    \<and> handleCreateRequest_status (fst (HandleCreateRequest e input w)) = 400
    \<and> (fst (HandleCreateRequest e input w) = Inl ErrAccountAndChannelRequired
       \<or> fst (HandleCreateRequest e input w) = Inl ErrRequesterRequired
       \<or> fst (HandleCreateRequest e input w) = Inl ErrJiraOrReasonRequired
       \<or> fst (HandleCreateRequest e input w) = Inl ErrDurationNotPositive
       \<or> fst (HandleCreateRequest e input w) = Inl (ErrNoBinding (cri_ChannelID input) (cri_AccountID input))
       \<or> (\<exists>cfg. GetConfig e w (cri_ChannelID input) (cri_AccountID input) = DbOk (Some cfg)
             \<and> fst (HandleCreateRequest e input w) =
                 Inl (ErrDurationExceedsMaximum (cri_RequestedDurationMinutes input)
                        (wrap64 (cfg_MaxRequestHours cfg * 60)))))
    \<and> (cri_AccountID input \<noteq> [] \<and> cri_ChannelID input \<noteq> [] \<and> cri_RequesterMMUserID input \<noteq> []
         \<and> cri_RequesterEmail input \<noteq> [] \<and> (cri_Jira input \<noteq> [] \<or> cri_Reason input \<noteq> [])
         \<and> 0 < cri_RequestedDurationMinutes input \<longrightarrow>
           (GetConfig e w (cri_ChannelID input) (cri_AccountID input) = DbOk None \<longrightarrow>
              fst (HandleCreateRequest e input w) =
                Inl (ErrNoBinding (cri_ChannelID input) (cri_AccountID input)))
         \<and> (\<forall>cfg. GetConfig e w (cri_ChannelID input) (cri_AccountID input) = DbOk (Some cfg) \<longrightarrow>
              fst (HandleCreateRequest e input w) =
                Inl (ErrDurationExceedsMaximum (cri_RequestedDurationMinutes input)
                       (wrap64 (cfg_MaxRequestHours cfg * 60))))))
   \<and> ((\<exists>cfg. GetConfig e w (cri_ChannelID input) (cri_AccountID input) = DbOk (Some cfg)
            \<and> wrap64 (cfg_MaxRequestHours cfg * 60) \<le> 0)
       \<and> cri_AccountID input \<noteq> [] \<and> cri_ChannelID input \<noteq> [] \<and> cri_RequesterMMUserID input \<noteq> []
       \<and> cri_RequesterEmail input \<noteq> [] \<and> (cri_Jira input \<noteq> [] \<or> cri_Reason input \<noteq> [])
       \<and> 0 < cri_RequestedDurationMinutes input
       \<and> LookupUserByEmail e (cri_RequesterEmail input) \<noteq> None
       \<and> OpCreateRequest \<notin> outage e
       \<and> find (\<lambda>r. RequestID r = new_uuid e (uuids_drawn w)) (tableRequests w) = None \<longrightarrow>
         (\<exists>req. fst (HandleCreateRequest e input w) = Inr req
            \<and> Status req = StatusPending
            \<and> RequestedDurationMinutes req = cri_RequestedDurationMinutes input
            \<and> tableRequests (snd (HandleCreateRequest e input w)) = tableRequests w @ [req])
       \<and> handleCreateRequest_status (fst (HandleCreateRequest e input w)) = 201)"
proof (intro conjI impI)
  assume h: "GetConfig e w (cri_ChannelID input) (cri_AccountID input) = DbOk None
      \<or> (\<exists>cfg. GetConfig e w (cri_ChannelID input) (cri_AccountID input) = DbOk (Some cfg)
            \<and> 0 < wrap64 (cfg_MaxRequestHours cfg * 60)
            \<and> wrap64 (cfg_MaxRequestHours cfg * 60) < cri_RequestedDurationMinutes input)"
  then show "snd (HandleCreateRequest e input w) = w"
    by (auto simp: HandleCreateRequest_def Let_def)
  from h show "handleCreateRequest_status (fst (HandleCreateRequest e input w)) = 400"
    by (auto simp: HandleCreateRequest_def handleCreateRequest_status_def Let_def)
  from h show "fst (HandleCreateRequest e input w) = Inl ErrAccountAndChannelRequired
       \<or> fst (HandleCreateRequest e input w) = Inl ErrRequesterRequired
       \<or> fst (HandleCreateRequest e input w) = Inl ErrJiraOrReasonRequired
       \<or> fst (HandleCreateRequest e input w) = Inl ErrDurationNotPositive
       \<or> fst (HandleCreateRequest e input w) = Inl (ErrNoBinding (cri_ChannelID input) (cri_AccountID input))
       \<or> (\<exists>cfg. GetConfig e w (cri_ChannelID input) (cri_AccountID input) = DbOk (Some cfg)
             \<and> fst (HandleCreateRequest e input w) =
                 Inl (ErrDurationExceedsMaximum (cri_RequestedDurationMinutes input)
                        (wrap64 (cfg_MaxRequestHours cfg * 60))))"
    by (auto simp: HandleCreateRequest_def Let_def)
  assume v: "cri_AccountID input \<noteq> [] \<and> cri_ChannelID input \<noteq> [] \<and> cri_RequesterMMUserID input \<noteq> []
         \<and> cri_RequesterEmail input \<noteq> [] \<and> (cri_Jira input \<noteq> [] \<or> cri_Reason input \<noteq> [])
         \<and> 0 < cri_RequestedDurationMinutes input"
  show "fst (HandleCreateRequest e input w) =
                Inl (ErrNoBinding (cri_ChannelID input) (cri_AccountID input))"
    if "GetConfig e w (cri_ChannelID input) (cri_AccountID input) = DbOk None"
    using that v by (auto simp: HandleCreateRequest_def Let_def)
  show "\<forall>cfg. GetConfig e w (cri_ChannelID input) (cri_AccountID input) = DbOk (Some cfg) \<longrightarrow>
              fst (HandleCreateRequest e input w) =
                Inl (ErrDurationExceedsMaximum (cri_RequestedDurationMinutes input)
                       (wrap64 (cfg_MaxRequestHours cfg * 60)))"
    using h v by (auto simp: HandleCreateRequest_def Let_def)
next
  assume h: "(\<exists>cfg. GetConfig e w (cri_ChannelID input) (cri_AccountID input) = DbOk (Some cfg)
            \<and> wrap64 (cfg_MaxRequestHours cfg * 60) \<le> 0)
       \<and> cri_AccountID input \<noteq> [] \<and> cri_ChannelID input \<noteq> [] \<and> cri_RequesterMMUserID input \<noteq> []
       \<and> cri_RequesterEmail input \<noteq> [] \<and> (cri_Jira input \<noteq> [] \<or> cri_Reason input \<noteq> [])
       \<and> 0 < cri_RequestedDurationMinutes input
       \<and> LookupUserByEmail e (cri_RequesterEmail input) \<noteq> None
       \<and> OpCreateRequest \<notin> outage e
       \<and> find (\<lambda>r. RequestID r = new_uuid e (uuids_drawn w)) (tableRequests w) = None"
  then obtain cfg uid where c: "GetConfig e w (cri_ChannelID input) (cri_AccountID input) = DbOk (Some cfg)"
      "wrap64 (cfg_MaxRequestHours cfg * 60) \<le> 0" "LookupUserByEmail e (cri_RequesterEmail input) = Some uid"
    by auto
  from h c show "\<exists>req. fst (HandleCreateRequest e input w) = Inr req
            \<and> Status req = StatusPending
            \<and> RequestedDurationMinutes req = cri_RequestedDurationMinutes input
            \<and> tableRequests (snd (HandleCreateRequest e input w)) = tableRequests w @ [req]"
    by (simp add: HandleCreateRequest_def Let_def CreateRequest_def uuid_New_def)
  from h c show "handleCreateRequest_status (fst (HandleCreateRequest e input w)) = 201"
    by (simp add: HandleCreateRequest_def Let_def CreateRequest_def uuid_New_def handleCreateRequest_status_def)
qed

theorem create_rejected_without_binding_or_over_limit_witness:
  "HandleCreateRequest sample_env
          \<lparr>cri_AccountID = ''111111111111'', cri_ChannelID = ''ch1'', cri_RequesterMMUserID = ''u_r'',
           cri_RequesterEmail = ''user@example.com'', cri_Jira = ''JIRA-1'', cri_Reason = [],
           cri_RequestedDurationMinutes = 120\<rparr>
          (sample_world [sample_binding ''ch1'' ''111111111111'' 1] []) =
     (Inl (ErrDurationExceedsMaximum 120 60), sample_world [sample_binding ''ch1'' ''111111111111'' 1] [])
   \<and> HandleCreateRequest sample_env
          \<lparr>cri_AccountID = ''111111111111'', cri_ChannelID = ''ch1'', cri_RequesterMMUserID = ''u_r'',
           cri_RequesterEmail = ''user@example.com'', cri_Jira = ''JIRA-1'', cri_Reason = [],
           cri_RequestedDurationMinutes = 120\<rparr>
          (sample_world [] []) =
     (Inl (ErrNoBinding ''ch1'' ''111111111111''), sample_world [] [])
   \<and> handleCreateRequest_status (fst (HandleCreateRequest sample_env
          \<lparr>cri_AccountID = ''111111111111'', cri_ChannelID = ''ch1'', cri_RequesterMMUserID = ''u_r'',
           cri_RequesterEmail = ''user@example.com'', cri_Jira = ''JIRA-1'', cri_Reason = [],
           cri_RequestedDurationMinutes = 120\<rparr>
          (sample_world [sample_binding ''ch1'' ''111111111111'' 1] []))) = 400
   \<and> map (\<lambda>r. (Status r, RequestedDurationMinutes r))
       (tableRequests (snd (HandleCreateRequest sample_env
          \<lparr>cri_AccountID = ''111111111111'', cri_ChannelID = ''ch1'', cri_RequesterMMUserID = ''u_r'',
           cri_RequesterEmail = ''user@example.com'', cri_Jira = ''JIRA-1'', cri_Reason = [],
           cri_RequestedDurationMinutes = 600\<rparr>
          (sample_world [sample_binding ''ch1'' ''111111111111'' (- 1)] [])))) = [(StatusPending, 600)]
   \<and> handleCreateRequest_status (fst (HandleCreateRequest sample_env
          \<lparr>cri_AccountID = ''111111111111'', cri_ChannelID = ''ch1'', cri_RequesterMMUserID = ''u_r'',
           cri_RequesterEmail = ''user@example.com'', cri_Jira = ''JIRA-1'', cri_Reason = [],
           cri_RequestedDurationMinutes = 600\<rparr>
          (sample_world [sample_binding ''ch1'' ''111111111111'' (- 1)] []))) = 201"
proof -
  let ?i = "\<lparr>cri_AccountID = ''111111111111'', cri_ChannelID = ''ch1'', cri_RequesterMMUserID = ''u_r'',
           cri_RequesterEmail = ''user@example.com'', cri_Jira = ''JIRA-1'', cri_Reason = [],
           cri_RequestedDurationMinutes = 120\<rparr>"
  let ?j = "\<lparr>cri_AccountID = ''111111111111'', cri_ChannelID = ''ch1'', cri_RequesterMMUserID = ''u_r'',
           cri_RequesterEmail = ''user@example.com'', cri_Jira = ''JIRA-1'', cri_Reason = [],
           cri_RequestedDurationMinutes = 600\<rparr>"
  let ?b = "sample_binding ''ch1'' ''111111111111'' 1"
  let ?c = "sample_binding ''ch1'' ''111111111111'' (- 1)"
  let ?w = "sample_world [?b] []"
  let ?v = "sample_world [] []"
  let ?u = "sample_world [?c] []"
  have valid: "cri_AccountID ?i \<noteq> [] \<and> cri_ChannelID ?i \<noteq> [] \<and> cri_RequesterMMUserID ?i \<noteq> []
         \<and> cri_RequesterEmail ?i \<noteq> [] \<and> (cri_Jira ?i \<noteq> [] \<or> cri_Reason ?i \<noteq> [])
         \<and> 0 < cri_RequestedDurationMinutes ?i"
    by simp
  have gw: "GetConfig sample_env ?w (cri_ChannelID ?i) (cri_AccountID ?i) = DbOk (Some ?b)"
    by (simp add: svc_eval)
  have "0 < wrap64 (cfg_MaxRequestHours ?b * 60)
      \<and> wrap64 (cfg_MaxRequestHours ?b * 60) < cri_RequestedDurationMinutes ?i"
    by (simp add: svc_eval)
  with gw have hw: "GetConfig sample_env ?w (cri_ChannelID ?i) (cri_AccountID ?i) = DbOk None
         \<or> (\<exists>cfg. GetConfig sample_env ?w (cri_ChannelID ?i) (cri_AccountID ?i) = DbOk (Some cfg)
               \<and> 0 < wrap64 (cfg_MaxRequestHours cfg * 60)
               \<and> wrap64 (cfg_MaxRequestHours cfg * 60) < cri_RequestedDurationMinutes ?i)"
    by blast
  have gv: "GetConfig sample_env ?v (cri_ChannelID ?i) (cri_AccountID ?i) = DbOk None"
    by (simp add: svc_eval)
  then have hv: "GetConfig sample_env ?v (cri_ChannelID ?i) (cri_AccountID ?i) = DbOk None
         \<or> (\<exists>cfg. GetConfig sample_env ?v (cri_ChannelID ?i) (cri_AccountID ?i) = DbOk (Some cfg)
               \<and> 0 < wrap64 (cfg_MaxRequestHours cfg * 60)
               \<and> wrap64 (cfg_MaxRequestHours cfg * 60) < cri_RequestedDurationMinutes ?i)"
    by blast
  have gu: "GetConfig sample_env ?u (cri_ChannelID ?j) (cri_AccountID ?j) = DbOk (Some ?c)
         \<and> wrap64 (cfg_MaxRequestHours ?c * 60) \<le> 0"
    by (simp add: svc_eval)
  then have "\<exists>cfg. GetConfig sample_env ?u (cri_ChannelID ?j) (cri_AccountID ?j) = DbOk (Some cfg)
         \<and> wrap64 (cfg_MaxRequestHours cfg * 60) \<le> 0"
    by blast
  moreover have "cri_AccountID ?j \<noteq> [] \<and> cri_ChannelID ?j \<noteq> [] \<and> cri_RequesterMMUserID ?j \<noteq> []
       \<and> cri_RequesterEmail ?j \<noteq> [] \<and> (cri_Jira ?j \<noteq> [] \<or> cri_Reason ?j \<noteq> [])
       \<and> 0 < cri_RequestedDurationMinutes ?j
       \<and> LookupUserByEmail sample_env (cri_RequesterEmail ?j) \<noteq> None
       \<and> OpCreateRequest \<notin> outage sample_env
       \<and> find (\<lambda>r. RequestID r = new_uuid sample_env (uuids_drawn ?u)) (tableRequests ?u) = None"
    by (simp add: svc_eval)
  ultimately have hu: "(\<exists>cfg. GetConfig sample_env ?u (cri_ChannelID ?j) (cri_AccountID ?j) = DbOk (Some cfg)
            \<and> wrap64 (cfg_MaxRequestHours cfg * 60) \<le> 0)
       \<and> cri_AccountID ?j \<noteq> [] \<and> cri_ChannelID ?j \<noteq> [] \<and> cri_RequesterMMUserID ?j \<noteq> []
       \<and> cri_RequesterEmail ?j \<noteq> [] \<and> (cri_Jira ?j \<noteq> [] \<or> cri_Reason ?j \<noteq> [])
       \<and> 0 < cri_RequestedDurationMinutes ?j
       \<and> LookupUserByEmail sample_env (cri_RequesterEmail ?j) \<noteq> None
       \<and> OpCreateRequest \<notin> outage sample_env
       \<and> find (\<lambda>r. RequestID r = new_uuid sample_env (uuids_drawn ?u)) (tableRequests ?u) = None"
    by (rule conjI)
  note tw = create_rejected_without_binding_or_over_limit [of sample_env ?w ?i, THEN conjunct1, THEN mp, OF hw]
  note tv = create_rejected_without_binding_or_over_limit [of sample_env ?v ?i, THEN conjunct1, THEN mp, OF hv]
  note tu = create_rejected_without_binding_or_over_limit [of sample_env ?u ?j, THEN conjunct2, THEN mp, OF hu]
  from tw have w1: "snd (HandleCreateRequest sample_env ?i ?w) = ?w"
    and w2: "handleCreateRequest_status (fst (HandleCreateRequest sample_env ?i ?w)) = 400"
    by blast+
  from tw [THEN conjunct2, THEN conjunct2, THEN conjunct2, THEN mp, OF valid, THEN conjunct2, THEN spec, THEN mp, OF gw]
  have w3: "fst (HandleCreateRequest sample_env ?i ?w) = Inl (ErrDurationExceedsMaximum 120 60)"
    by (simp add: svc_eval)
  from tv have v1: "snd (HandleCreateRequest sample_env ?i ?v) = ?v"
    by blast
  from tv [THEN conjunct2, THEN conjunct2, THEN conjunct2, THEN mp, OF valid, THEN conjunct1, THEN mp, OF gv]
  have v3: "fst (HandleCreateRequest sample_env ?i ?v) = Inl (ErrNoBinding ''ch1'' ''111111111111'')"
    by simp
  from tu obtain req where "Status req = StatusPending"
      "RequestedDurationMinutes req = cri_RequestedDurationMinutes ?j"
      "tableRequests (snd (HandleCreateRequest sample_env ?j ?u)) = tableRequests ?u @ [req]"
    by blast
  then have u1: "map (\<lambda>r. (Status r, RequestedDurationMinutes r))
       (tableRequests (snd (HandleCreateRequest sample_env ?j ?u))) = [(StatusPending, 600)]"
    by (simp add: sample_world_def)
  from tu have u2: "handleCreateRequest_status (fst (HandleCreateRequest sample_env ?j ?u)) = 201"
    by blast
  from w1 w3 have "HandleCreateRequest sample_env ?i ?w = (Inl (ErrDurationExceedsMaximum 120 60), ?w)"
    by (simp add: prod_eq_iff)
  moreover from v1 v3 have "HandleCreateRequest sample_env ?i ?v = (Inl (ErrNoBinding ''ch1'' ''111111111111''), ?v)"
    by (simp add: prod_eq_iff)
  ultimately show ?thesis using w2 u1 u2 by blast
qed

text \<open>
  C6 as stated fails for a binding whose \<open>max_request_hours\<close> is 0: a request for 120
  minutes exceeds \<open>0 \<times> 60\<close> and is created all the same, with its REQUESTED audit event.
\<close>

theorem create_over_zero_limit_counterexample:
  "map (\<lambda>r. (RequestID r, Status r, RequestedDurationMinutes r))
     (tableRequests (snd (HandleCreateRequest sample_env
          \<lparr>cri_AccountID = ''111111111111'', cri_ChannelID = ''ch1'', cri_RequesterMMUserID = ''u_r'',
           cri_RequesterEmail = ''user@example.com'', cri_Jira = ''JIRA-1'', cri_Reason = [],
           cri_RequestedDurationMinutes = 120\<rparr>
          (sample_world [sample_binding ''ch1'' ''111111111111'' 0] [])))) = [(''uuid-0'', StatusPending, 120)]
   \<and> map ev_EventType
     (tableAudit (snd (HandleCreateRequest sample_env
          \<lparr>cri_AccountID = ''111111111111'', cri_ChannelID = ''ch1'', cri_RequesterMMUserID = ''u_r'',
           cri_RequesterEmail = ''user@example.com'', cri_Jira = ''JIRA-1'', cri_Reason = [],
           cri_RequestedDurationMinutes = 120\<rparr>
          (sample_world [sample_binding ''ch1'' ''111111111111'' 0] [])))) = [EventRequested]"
  by (simp add: HandleCreateRequest_def svc_eval)

subsection \<open>Account uniqueness\<close>

text \<open>
  A bind that runs alone on a table whose index is in step with it keeps the accounts
  unique: it refuses an account that is bound to another channel and writes nothing.
\<close>

lemma find_Some_mem: "find P xs = Some x \<Longrightarrow> x \<in> set xs \<and> P x"
  by (induction xs) (auto split: if_splits)

lemma account_uniqueD:
  assumes "account_unique w" and "c1 \<in> set (tableConfig w)" and "c2 \<in> set (tableConfig w)"
      and "cfg_AccountID c1 = cfg_AccountID c2"
  shows "cfg_ChannelID c1 = cfg_ChannelID c2"
  using assms unfolding account_unique_def by blast

lemma find_account_channel:
  assumes "account_unique w" and "c \<in> set (tableConfig w)" and "cfg_AccountID c = acct"
  shows "\<exists>c'. find (\<lambda>x. cfg_AccountID x = acct) (tableConfig w) = Some c' \<and> cfg_ChannelID c' = cfg_ChannelID c"
proof (cases "find (\<lambda>x. cfg_AccountID x = acct) (tableConfig w)")
  case None
  with assms(2,3) show ?thesis by (auto simp: find_None_iff)
next
  case (Some c')
  then have "c' \<in> set (tableConfig w)" and "cfg_AccountID c' = acct"
    using find_Some_mem [of "\<lambda>x. cfg_AccountID x = acct" "tableConfig w" c'] by simp_all
  with account_uniqueD [OF assms(1) _ assms(2), of c'] assms(3)
  have "cfg_ChannelID c' = cfg_ChannelID c" by simp
  with Some show ?thesis by simp
qed

lemma bind_alone_refused:
  assumes "account_unique w" and "indexAccount w = tableConfig w" and "c \<in> set (tableConfig w)"
      and "cfg_AccountID c = bnd_AccountID input" and "cfg_ChannelID c \<noteq> bnd_ChannelID input"
  shows "(\<exists>err. fst (HandleBindAccount e input w) = Inl err) \<and> snd (HandleBindAccount e input w) = w"
proof -
  from find_account_channel [OF assms(1,3,4)] obtain c'
    where "find (\<lambda>x. cfg_AccountID x = bnd_AccountID input) (tableConfig w) = Some c'"
      and "cfg_ChannelID c' = cfg_ChannelID c" by blast
  with assms(2,5) show ?thesis
    by (auto simp: HandleBindAccount_def HandleBindAccount_among_def GetChannelForAccount_def)
qed

lemma bind_alone_writes:
  assumes "indexAccount w = tableConfig w"
  shows "snd (HandleBindAccount e input w) = w
   \<or> (\<exists>cfg. cfg_ChannelID cfg = bnd_ChannelID input \<and> cfg_AccountID cfg = bnd_AccountID input
        \<and> tableConfig (snd (HandleBindAccount e input w)) =
            filter (\<lambda>c. \<not> (cfg_ChannelID c = bnd_ChannelID input \<and> cfg_AccountID c = bnd_AccountID input))
              (tableConfig w) @ [cfg]
        \<and> (\<forall>c \<in> set (tableConfig w). cfg_AccountID c = bnd_AccountID input \<longrightarrow>
              find (\<lambda>x. cfg_AccountID x = bnd_AccountID input) (tableConfig w) \<noteq> None
            \<and> cfg_ChannelID (the (find (\<lambda>x. cfg_AccountID x = bnd_AccountID input) (tableConfig w))) = bnd_ChannelID input))"
  using assms
  by (auto simp: HandleBindAccount_def HandleBindAccount_among_def GetChannelForAccount_def GetConfig_def
                 PutConfig_def Let_def find_None_iff
           split: dbres.splits option.splits if_splits)

lemma bind_alone_preserves:
  assumes "account_unique w" and idx: "indexAccount w = tableConfig w"
  shows "account_unique (snd (HandleBindAccount e input w))"
proof -
  from bind_alone_writes [OF idx, of e input]
  consider "snd (HandleBindAccount e input w) = w"
    | cfg where "cfg_ChannelID cfg = bnd_ChannelID input" "cfg_AccountID cfg = bnd_AccountID input"
        "tableConfig (snd (HandleBindAccount e input w)) =
            filter (\<lambda>c. \<not> (cfg_ChannelID c = bnd_ChannelID input \<and> cfg_AccountID c = bnd_AccountID input))
              (tableConfig w) @ [cfg]"
        "\<forall>c \<in> set (tableConfig w). cfg_AccountID c = bnd_AccountID input \<longrightarrow>
              find (\<lambda>x. cfg_AccountID x = bnd_AccountID input) (tableConfig w) \<noteq> None
            \<and> cfg_ChannelID (the (find (\<lambda>x. cfg_AccountID x = bnd_AccountID input) (tableConfig w))) = bnd_ChannelID input"
    by blast
  then show ?thesis
  proof cases
    case 1
    with assms show ?thesis by simp
  next
    case 2
    have same: "cfg_ChannelID c = bnd_ChannelID input"
      if "c \<in> set (tableConfig w)" "cfg_AccountID c = bnd_AccountID input" for c
    proof -
      from find_account_channel [OF assms(1) that] obtain c'
        where "find (\<lambda>x. cfg_AccountID x = bnd_AccountID input) (tableConfig w) = Some c'"
          and "cfg_ChannelID c' = cfg_ChannelID c" by blast
      with 2(4) that show ?thesis by auto
    qed
    show ?thesis
      unfolding account_unique_def
    proof (intro ballI impI)
      fix c1 c2
      assume m1: "c1 \<in> set (tableConfig (snd (HandleBindAccount e input w)))"
         and m2: "c2 \<in> set (tableConfig (snd (HandleBindAccount e input w)))"
         and eq: "cfg_AccountID c1 = cfg_AccountID c2"
      from m1 2(3) have k1: "c1 = cfg \<or> c1 \<in> set (tableConfig w)" by auto
      from m2 2(3) have k2: "c2 = cfg \<or> c2 \<in> set (tableConfig w)" by auto
      from k1 k2 show "cfg_ChannelID c1 = cfg_ChannelID c2"
      proof (elim disjE)
        assume "c1 = cfg" "c2 = cfg"
        then show ?thesis by simp
      next
        assume "c1 = cfg" "c2 \<in> set (tableConfig w)"
        with same [of c2] eq 2(1,2) show ?thesis by simp
      next
        assume "c1 \<in> set (tableConfig w)" "c2 = cfg"
        with same [of c1] eq 2(1,2) show ?thesis by simp
      next
        assume "c1 \<in> set (tableConfig w)" "c2 \<in> set (tableConfig w)"
        with account_uniqueD [OF assms(1)] eq show ?thesis by blast
      qed
    qed
  qed
qed

text \<open>
  C9. The claim states the intended behaviour (the handler checks
  \<open>already bound to a different channel\<close>, the runbook says that each account can only be
  bound to one channel); the code does not have it. The check reads the index
  \<open>gsi_account\<close>, which follows the table with a delay, and the write is an unconditional
  put. Below, account \<open>111111111111\<close> is bound to \<open>ch1\<close> in an empty table, and a bind of
  the same account to \<open>ch2\<close> follows. When the index has caught up, the second bind is
  refused and writes nothing. When it has not, the second bind succeeds, and so it does
  when both binds look the account up before either writes: the table then binds the
  account to \<open>ch1\<close> and to \<open>ch2\<close>.
\<close>

theorem bind_one_account_to_two_channels:
  "HandleBindAccount sample_env \<lparr>bnd_ChannelID = ''ch2'', bnd_AccountID = ''111111111111''\<rparr>
      (gsi_account_propagate
         (snd (HandleBindAccount sample_env \<lparr>bnd_ChannelID = ''ch1'', bnd_AccountID = ''111111111111''\<rparr>
                 (sample_world [] [])))) =
     (Inl (ErrAlreadyBound ''111111111111'' ''ch1''),
      gsi_account_propagate
         (snd (HandleBindAccount sample_env \<lparr>bnd_ChannelID = ''ch1'', bnd_AccountID = ''111111111111''\<rparr>
                 (sample_world [] []))))
   \<and> map (\<lambda>c. (cfg_ChannelID c, cfg_AccountID c))
       (tableConfig (snd (HandleBindAccount sample_env \<lparr>bnd_ChannelID = ''ch1'', bnd_AccountID = ''111111111111''\<rparr>
                 (sample_world [] [])))) = [(''ch1'', ''111111111111'')]
   \<and> (case fst (HandleBindAccount sample_env \<lparr>bnd_ChannelID = ''ch2'', bnd_AccountID = ''111111111111''\<rparr>
         (snd (HandleBindAccount sample_env \<lparr>bnd_ChannelID = ''ch1'', bnd_AccountID = ''111111111111''\<rparr>
                 (sample_world [] [])))) of
         Inl err \<Rightarrow> None
       | Inr cfg \<Rightarrow> Some (cfg_ChannelID cfg, cfg_AccountID cfg)) = Some (''ch2'', ''111111111111'')
   \<and> map (\<lambda>c. (cfg_ChannelID c, cfg_AccountID c))
       (tableConfig (snd (HandleBindAccount sample_env \<lparr>bnd_ChannelID = ''ch2'', bnd_AccountID = ''111111111111''\<rparr>
         (snd (HandleBindAccount sample_env \<lparr>bnd_ChannelID = ''ch1'', bnd_AccountID = ''111111111111''\<rparr>
                 (sample_world [] [])))))) = [(''ch1'', ''111111111111''), (''ch2'', ''111111111111'')]
   \<and> (case fst (HandleBindAccount_among
         (\<lambda>w. gsi_account_propagate
                (snd (HandleBindAccount sample_env \<lparr>bnd_ChannelID = ''ch1'', bnd_AccountID = ''111111111111''\<rparr> w)))
         sample_env \<lparr>bnd_ChannelID = ''ch2'', bnd_AccountID = ''111111111111''\<rparr> (sample_world [] [])) of
         Inl err \<Rightarrow> None
       | Inr cfg \<Rightarrow> Some (cfg_ChannelID cfg, cfg_AccountID cfg)) = Some (''ch2'', ''111111111111'')
   \<and> map (\<lambda>c. (cfg_ChannelID c, cfg_AccountID c))
       (tableConfig (snd (HandleBindAccount_among
         (\<lambda>w. gsi_account_propagate
                (snd (HandleBindAccount sample_env \<lparr>bnd_ChannelID = ''ch1'', bnd_AccountID = ''111111111111''\<rparr> w)))
         sample_env \<lparr>bnd_ChannelID = ''ch2'', bnd_AccountID = ''111111111111''\<rparr> (sample_world [] [])))) =
       [(''ch1'', ''111111111111''), (''ch2'', ''111111111111'')]"
  by (simp add: HandleBindAccount_def HandleBindAccount_among_def svc_eval)

section \<open>Automatic expiration\<close>

text \<open>
  C8 (as amended). The workflow step \<open>revoke\<close> returns success at once, without consulting
  the identity provider and without touching the tables, when the request it reads is
  REVOKED or EXPIRED. In the workflow step and in the reconciler, once the identity revoke
  has succeeded, a failing conditional update GRANTED\<open>\<rightarrow>\<close>EXPIRED is swallowed: the operation
  succeeds, no audit event is written, no webhook is sent and the request is left as it is.
  For the workflow step this covers the request that was GRANTED when the step read it and
  that another invocation took out of GRANTED before the update.
\<close>

theorem expiration_conflict_swallowed:
  "(GetRequest e w rid = DbOk (Some req) \<and> (Status req = StatusRevoked \<or> Status req = StatusExpired) \<longrightarrow>
      fst (handleRevoke_among others e rid w) =
        Inr \<lparr>ar_Status = Status req, ar_RequestID = rid, ar_Message = ''already revoked or expired''\<rparr>
    \<and> snd (handleRevoke_among others e rid w) = slog LevelInfo ''request already revoked/expired, skipping'' w)
   \<and> (GetRequest e w rid = DbOk (Some req) \<and> Status req \<noteq> StatusRevoked \<and> Status req \<noteq> StatusExpired
       \<and> RevokeAccess e (AccountID req) (IdentityStoreUserID req) = None
       \<and> \<not> fst (ConditionalUpdateStatus e rid StatusGranted
                   [(''status'', StatusExpired), (''expired_at'', rfc3339 e (clock e))] (others w)) \<longrightarrow>
      fst (handleRevoke_among others e rid w) =
        Inr \<lparr>ar_Status = ''already_handled'', ar_RequestID = rid,
             ar_Message = ''conditional update failed, likely already revoked''\<rparr>
    \<and> snd (handleRevoke_among others e rid w) =
        slog LevelWarn ''conditional update to EXPIRED failed, may have been revoked already'' (others w)
    \<and> tableRequests (snd (handleRevoke_among others e rid w)) = tableRequests (others w)
    \<and> tableAudit (snd (handleRevoke_among others e rid w)) = tableAudit (others w)
    \<and> delivered (snd (handleRevoke_among others e rid w)) = delivered (others w))
   \<and> (RevokeAccess e (AccountID snap) (IdentityStoreUserID snap) = None
       \<and> \<not> fst (ConditionalUpdateStatus e (RequestID snap) StatusGranted
                   [(''status'', StatusExpired), (''expired_at'', rfc3339 e (clock e))] w) \<longrightarrow>
      fst (revokeExpired e snap w) = None
    \<and> snd (revokeExpired e snap w) =
        slog LevelWarn ''conditional update to EXPIRED failed, may have been revoked already'' w)"
proof (intro conjI impI)
  assume "GetRequest e w rid = DbOk (Some req) \<and> (Status req = StatusRevoked \<or> Status req = StatusExpired)"
  then show "fst (handleRevoke_among others e rid w) =
        Inr \<lparr>ar_Status = Status req, ar_RequestID = rid, ar_Message = ''already revoked or expired''\<rparr>"
    and "snd (handleRevoke_among others e rid w) = slog LevelInfo ''request already revoked/expired, skipping'' w"
    by (auto simp: handleRevoke_among_def)
next
  assume a: "GetRequest e w rid = DbOk (Some req) \<and> Status req \<noteq> StatusRevoked \<and> Status req \<noteq> StatusExpired
       \<and> RevokeAccess e (AccountID req) (IdentityStoreUserID req) = None
       \<and> \<not> fst (ConditionalUpdateStatus e rid StatusGranted
                   [(''status'', StatusExpired), (''expired_at'', rfc3339 e (clock e))] (others w))"
  then have "snd (ConditionalUpdateStatus e rid StatusGranted
                   [(''status'', StatusExpired), (''expired_at'', rfc3339 e (clock e))] (others w)) = others w"
    by (intro ConditionalUpdateStatus_refused) simp
  with a show "fst (handleRevoke_among others e rid w) =
        Inr \<lparr>ar_Status = ''already_handled'', ar_RequestID = rid,
             ar_Message = ''conditional update failed, likely already revoked''\<rparr>"
    and s: "snd (handleRevoke_among others e rid w) =
        slog LevelWarn ''conditional update to EXPIRED failed, may have been revoked already'' (others w)"
    by (simp_all add: handleRevoke_among_def Let_def)
  from s show "tableRequests (snd (handleRevoke_among others e rid w)) = tableRequests (others w)"
    and "tableAudit (snd (handleRevoke_among others e rid w)) = tableAudit (others w)"
    and "delivered (snd (handleRevoke_among others e rid w)) = delivered (others w)"
    by simp_all
next
  assume a: "RevokeAccess e (AccountID snap) (IdentityStoreUserID snap) = None
       \<and> \<not> fst (ConditionalUpdateStatus e (RequestID snap) StatusGranted
                   [(''status'', StatusExpired), (''expired_at'', rfc3339 e (clock e))] w)"
  then have "snd (ConditionalUpdateStatus e (RequestID snap) StatusGranted
                   [(''status'', StatusExpired), (''expired_at'', rfc3339 e (clock e))] w) = w"
    by (intro ConditionalUpdateStatus_refused) simp
  with a show "fst (revokeExpired e snap w) = None"
    and "snd (revokeExpired e snap w) =
        slog LevelWarn ''conditional update to EXPIRED failed, may have been revoked already'' w"
    by (simp_all add: revokeExpired_def Let_def)
qed

theorem expiration_conflict_swallowed_witness:
  "fst (handleRevoke sample_env ''r1'' (sample_world [] [sample_request ''r1'' ''222222222222'' StatusRevoked])) =
     Inr \<lparr>ar_Status = StatusRevoked, ar_RequestID = ''r1'', ar_Message = ''already revoked or expired''\<rparr>
   \<and> tableAudit (snd (handleRevoke sample_env ''r1''
        (sample_world [] [sample_request ''r1'' ''222222222222'' StatusRevoked]))) = []
   \<and> Status (sample_request ''r1'' ''111111111111'' StatusGranted) = StatusGranted
   \<and> GetRequest sample_env (sample_world [] [sample_request ''r1'' ''111111111111'' StatusGranted]) ''r1'' =
       DbOk (Some (sample_request ''r1'' ''111111111111'' StatusGranted))
   \<and> fst (handleRevoke_among sample_manual_revoke sample_env ''r1''
        (sample_world [] [sample_request ''r1'' ''111111111111'' StatusGranted])) =
       Inr \<lparr>ar_Status = ''already_handled'', ar_RequestID = ''r1'',
            ar_Message = ''conditional update failed, likely already revoked''\<rparr>
   \<and> map ev_EventType (tableAudit (snd (handleRevoke_among sample_manual_revoke sample_env ''r1''
        (sample_world [] [sample_request ''r1'' ''111111111111'' StatusGranted])))) = [EventRevoked]
   \<and> map Status (tableRequests (snd (handleRevoke_among sample_manual_revoke sample_env ''r1''
        (sample_world [] [sample_request ''r1'' ''111111111111'' StatusGranted])))) = [StatusRevoked]
   \<and> map wh_Status (delivered (snd (handleRevoke_among sample_manual_revoke sample_env ''r1''
        (sample_world [] [sample_request ''r1'' ''111111111111'' StatusGranted])))) = [StatusRevoked]
   \<and> fst (revokeExpired sample_env (sample_request ''r1'' ''111111111111'' StatusGranted)
        (sample_world [] [sample_request ''r1'' ''111111111111'' StatusRevoked])) = None
   \<and> tableAudit (snd (revokeExpired sample_env (sample_request ''r1'' ''111111111111'' StatusGranted)
        (sample_world [] [sample_request ''r1'' ''111111111111'' StatusRevoked]))) = []
   \<and> tableRequests (snd (revokeExpired sample_env (sample_request ''r1'' ''111111111111'' StatusGranted)
        (sample_world [] [sample_request ''r1'' ''111111111111'' StatusRevoked]))) =
       [sample_request ''r1'' ''111111111111'' StatusRevoked]"
proof -
  let ?w2 = "sample_world [] [sample_request ''r1'' ''222222222222'' StatusRevoked]"
  let ?w1 = "sample_world [] [sample_request ''r1'' ''111111111111'' StatusRevoked]"
  let ?wg = "sample_world [] [sample_request ''r1'' ''111111111111'' StatusGranted]"
  let ?snap = "sample_request ''r1'' ''111111111111'' StatusGranted"
  have a: "GetRequest sample_env ?w2 ''r1'' = DbOk (Some (sample_request ''r1'' ''222222222222'' StatusRevoked))
         \<and> (Status (sample_request ''r1'' ''222222222222'' StatusRevoked) = StatusRevoked
            \<or> Status (sample_request ''r1'' ''222222222222'' StatusRevoked) = StatusExpired)"
    by (simp add: svc_eval)
  have g: "GetRequest sample_env ?wg ''r1'' = DbOk (Some ?snap)" and st: "Status ?snap = StatusGranted"
    by (simp_all add: svc_eval)
  have others: "map Status (tableRequests (sample_manual_revoke ?wg)) = [StatusRevoked]
       \<and> map ev_EventType (tableAudit (sample_manual_revoke ?wg)) = [EventRevoked]
       \<and> map wh_Status (delivered (sample_manual_revoke ?wg)) = [StatusRevoked]"
    by (simp add: sample_manual_revoke_def HandleRevokeRequest_def svc_eval eval_nat_numeral)
  have c: "GetRequest sample_env ?wg ''r1'' = DbOk (Some ?snap)
       \<and> Status ?snap \<noteq> StatusRevoked \<and> Status ?snap \<noteq> StatusExpired
       \<and> RevokeAccess sample_env (AccountID ?snap) (IdentityStoreUserID ?snap) = None
       \<and> \<not> fst (ConditionalUpdateStatus sample_env ''r1'' StatusGranted
                   [(''status'', StatusExpired), (''expired_at'', rfc3339 sample_env (clock sample_env))]
                   (sample_manual_revoke ?wg))"
    by (simp add: sample_manual_revoke_def HandleRevokeRequest_def svc_eval)
  have b: "RevokeAccess sample_env (AccountID ?snap) (IdentityStoreUserID ?snap) = None
       \<and> \<not> fst (ConditionalUpdateStatus sample_env (RequestID ?snap) StatusGranted
                   [(''status'', StatusExpired), (''expired_at'', rfc3339 sample_env (clock sample_env))] ?w1)"
    by (simp add: svc_eval)
  note t1 = expiration_conflict_swallowed [of sample_env ?w2 "''r1''" "sample_request ''r1'' ''222222222222'' StatusRevoked" "\<lambda>w. w",
      THEN conjunct1, THEN mp, OF a]
  note t2 = expiration_conflict_swallowed [of sample_env ?wg "''r1''" ?snap sample_manual_revoke,
      THEN conjunct2, THEN conjunct1, THEN mp, OF c]
  note t3 = expiration_conflict_swallowed [of sample_env ?w1 _ _ _ ?snap,
      THEN conjunct2, THEN conjunct2, THEN mp, OF b]
  from t1 have p1: "fst (handleRevoke sample_env ''r1'' ?w2) =
     Inr \<lparr>ar_Status = StatusRevoked, ar_RequestID = ''r1'', ar_Message = ''already revoked or expired''\<rparr>
   \<and> tableAudit (snd (handleRevoke sample_env ''r1'' ?w2)) = []"
    by (simp add: handleRevoke_def sample_world_def sample_request_def slog_def)
  from t2 others have p2: "fst (handleRevoke_among sample_manual_revoke sample_env ''r1'' ?wg) =
       Inr \<lparr>ar_Status = ''already_handled'', ar_RequestID = ''r1'',
            ar_Message = ''conditional update failed, likely already revoked''\<rparr>
   \<and> map ev_EventType (tableAudit (snd (handleRevoke_among sample_manual_revoke sample_env ''r1'' ?wg))) = [EventRevoked]
   \<and> map Status (tableRequests (snd (handleRevoke_among sample_manual_revoke sample_env ''r1'' ?wg))) = [StatusRevoked]
   \<and> map wh_Status (delivered (snd (handleRevoke_among sample_manual_revoke sample_env ''r1'' ?wg))) = [StatusRevoked]"
    by simp
  from t3 have p3: "fst (revokeExpired sample_env ?snap ?w1) = None
   \<and> tableAudit (snd (revokeExpired sample_env ?snap ?w1)) = []
   \<and> tableRequests (snd (revokeExpired sample_env ?snap ?w1)) = [sample_request ''r1'' ''111111111111'' StatusRevoked]"
    by (simp add: sample_world_def sample_request_def slog_def)
  from p1 p2 p3 g st show ?thesis by blast
qed

text \<open>
  C8 as stated fails in the reconciler, which does not look at the stored status before it
  calls the identity provider: for a request that is stored as REVOKED, a failing identity
  revoke makes the sweep of that request fail and writes an ERROR audit event.
\<close>

theorem reconciler_no_short_circuit_counterexample:
  "fst (revokeExpired sample_env (sample_request ''r2'' ''222222222222'' StatusGranted)
          (sample_world [] [sample_request ''r2'' ''222222222222'' StatusRevoked])) =
     Some (ErrRevokeAccess ''SSO unavailable'')
   \<and> map (\<lambda>ev. (ev_RequestID ev, ev_EventType ev))
       (tableAudit (snd (revokeExpired sample_env (sample_request ''r2'' ''222222222222'' StatusGranted)
          (sample_world [] [sample_request ''r2'' ''222222222222'' StatusRevoked])))) = [(''r2'', EventError)]
   \<and> map Status (tableRequests (snd (revokeExpired sample_env (sample_request ''r2'' ''222222222222'' StatusGranted)
          (sample_world [] [sample_request ''r2'' ''222222222222'' StatusRevoked])))) = [StatusRevoked]"
  by (simp add: revokeExpired_def svc_eval)

section \<open>Reconciler tick\<close>

lemma find_distinct_key:
  assumes "distinct (map f xs)" and "x \<in> set xs"
  shows "find (\<lambda>y. f y = f x) xs = Some x"
  using assms by (induction xs) (auto simp: image_iff)

lemma QueryRequestsByStatus_slog [simp]:
  "QueryRequestsByStatus e (slog l m w) st t lim = QueryRequestsByStatus e w st t lim"
  by (simp add: QueryRequestsByStatus_def)

lemma query_result:
  assumes "QueryRequestsByStatus e w st t 0 = DbOk due"
  shows "set due \<subseteq> set (tableRequests w)" and "\<forall>r \<in> set due. Status r = st"
    and "distinct (map RequestID (tableRequests w)) \<Longrightarrow> distinct (map RequestID due)"
proof -
  from assms have due: "due = sort_key EndTime (filter (\<lambda>r. Status r = st \<and> (t \<noteq> [] \<longrightarrow> EndTime r \<le> t)) (tableRequests w))"
    by (simp add: QueryRequestsByStatus_def split: if_splits)
  show "set due \<subseteq> set (tableRequests w)" and "\<forall>r \<in> set due. Status r = st"
    by (auto simp: due)
  assume "distinct (map RequestID (tableRequests w))"
  then have "distinct (tableRequests w)" and "inj_on RequestID (set (tableRequests w))"
    by (simp_all add: distinct_map)
  then have "distinct due" and "inj_on RequestID (set due)"
    by (auto simp: due intro: inj_on_subset)
  then show "distinct (map RequestID due)" by (simp add: distinct_map)
qed

subsection \<open>One request\<close>

lemma revokeExpired_ok_iff:
  "fst (revokeExpired e req w) = None \<longleftrightarrow> RevokeAccess e (AccountID req) (IdentityStoreUserID req) = None"
  by (simp add: revokeExpired_def Let_def split: option.splits)

lemma ConditionalUpdateStatus_other:
  assumes "rid' \<noteq> rid"
  shows "find (\<lambda>r. RequestID r = rid') (tableRequests (snd (ConditionalUpdateStatus e rid expected updates w))) =
         find (\<lambda>r. RequestID r = rid') (tableRequests w)"
  using assms by (simp add: ConditionalUpdateStatus_def find_map_other split: option.splits)

lemma revokeExpired_other:
  assumes "rid' \<noteq> RequestID req"
  shows "find (\<lambda>r. RequestID r = rid') (tableRequests (snd (revokeExpired e req w))) =
         find (\<lambda>r. RequestID r = rid') (tableRequests w)"
  using assms by (simp add: revokeExpired_def Let_def ConditionalUpdateStatus_other split: option.splits)

lemma revokeExpired_row:
  assumes "OpConditionalUpdateStatus \<notin> outage e"
      and "find (\<lambda>r. RequestID r = RequestID req) (tableRequests w) = Some req"
      and "Status req = StatusGranted"
  shows "find (\<lambda>r. RequestID r = RequestID req) (tableRequests (snd (revokeExpired e req w))) =
         Some (case RevokeAccess e (AccountID req) (IdentityStoreUserID req) of
                 Some err \<Rightarrow> req\<lparr>Status := StatusError, ErrorDetails := ''reconciler revoke failed: '' @ err\<rparr>
               | None \<Rightarrow> req\<lparr>Status := StatusExpired, ExpiredAt := rfc3339 e (clock e)\<rparr>)"
  using assms
  by (simp add: revokeExpired_def Let_def ConditionalUpdateStatus_applies find_map_update set_attribute_def
           split: option.splits)

lemma Log_keeps:
  assumes "ev \<in> set (tableAudit w)" and "ev_RequestID ev \<noteq> rid"
  shows "ev \<in> set (tableAudit (snd (Log e rid ty acct ch actor mail details w)))"
  using assms by (simp add: Log_def PutAuditEvent_def uuid_New_def Let_def)

lemma Log_writes:
  assumes "OpPutAuditEvent \<notin> outage e"
  shows "\<exists>ev \<in> set (tableAudit (snd (Log e rid ty acct ch actor mail details w))).
           ev_RequestID ev = rid \<and> ev_EventType ev = ty \<and> ev_Details ev = details"
  using assms by (simp add: Log_def PutAuditEvent_def uuid_New_def Let_def)

lemma revokeExpired_keeps:
  assumes "ev \<in> set (tableAudit w)" and "ev_RequestID ev \<noteq> RequestID req"
  shows "ev \<in> set (tableAudit (snd (revokeExpired e req w)))"
  using assms by (simp add: revokeExpired_def Let_def Log_keeps split: option.splits)

lemma revokeExpired_audits_error:
  assumes "OpPutAuditEvent \<notin> outage e"
      and "RevokeAccess e (AccountID req) (IdentityStoreUserID req) = Some err"
  shows "\<exists>ev \<in> set (tableAudit (snd (revokeExpired e req w))).
           ev_RequestID ev = RequestID req \<and> ev_EventType ev = EventError \<and> ev_Details ev = [(''error'', err)]"
  using assms Log_writes [OF assms(1)] by (simp add: revokeExpired_def Let_def)


subsection \<open>The loop\<close>

lemma sweep_count:
  "fst (sweep e reqs n w) =
     n + int (length (filter (\<lambda>r. RevokeAccess e (AccountID r) (IdentityStoreUserID r) \<noteq> None) reqs))"
  by (induction reqs arbitrary: n w) (simp_all add: Let_def revokeExpired_ok_iff del: not_None_eq)

lemma sweep_other:
  assumes "rid \<notin> RequestID ` set reqs"
  shows "find (\<lambda>r. RequestID r = rid) (tableRequests (snd (sweep e reqs n w))) =
         find (\<lambda>r. RequestID r = rid) (tableRequests w)"
  using assms by (induction reqs arbitrary: n w) (simp_all add: Let_def revokeExpired_other)

lemma sweep_keeps:
  assumes "ev \<in> set (tableAudit w)" and "ev_RequestID ev \<notin> RequestID ` set reqs"
  shows "ev \<in> set (tableAudit (snd (sweep e reqs n w)))"
  using assms by (induction reqs arbitrary: n w) (simp_all add: Let_def revokeExpired_keeps)

lemma sweep_rows:
  assumes "OpConditionalUpdateStatus \<notin> outage e" and "distinct (map RequestID reqs)"
      and "\<forall>r \<in> set reqs. find (\<lambda>x. RequestID x = RequestID r) (tableRequests w) = Some r \<and> Status r = StatusGranted"
      and "req \<in> set reqs"
  shows "find (\<lambda>r. RequestID r = RequestID req) (tableRequests (snd (sweep e reqs n w))) =
         Some (case RevokeAccess e (AccountID req) (IdentityStoreUserID req) of
                 Some err \<Rightarrow> req\<lparr>Status := StatusError, ErrorDetails := ''reconciler revoke failed: '' @ err\<rparr>
               | None \<Rightarrow> req\<lparr>Status := StatusExpired, ExpiredAt := rfc3339 e (clock e)\<rparr>)"
  using assms(2-4)
proof (induction reqs arbitrary: n w)
  case Nil
  then show ?case by simp
next
  case (Cons x xs)
  let ?w1 = "snd (revokeExpired e x w)"
  let ?w1' = "slog LevelError ''failed to revoke expired grant'' ?w1"
  have step: "snd (sweep e (x # xs) n w) = snd (sweep e xs n ?w1) \<or>
              snd (sweep e (x # xs) n w) = snd (sweep e xs (n + 1) ?w1')"
    by (simp add: Let_def)
  have notin: "RequestID x \<notin> RequestID ` set xs" using Cons.prems(1) by auto
  show ?case
  proof (cases "req = x")
    case True
    from Cons.prems(2) have "find (\<lambda>r. RequestID r = RequestID x) (tableRequests w) = Some x"
      and "Status x = StatusGranted" by simp_all
    from revokeExpired_row [OF assms(1) this]
    have row: "find (\<lambda>r. RequestID r = RequestID x) (tableRequests ?w1) =
         Some (case RevokeAccess e (AccountID x) (IdentityStoreUserID x) of
                 Some err \<Rightarrow> x\<lparr>Status := StatusError, ErrorDetails := ''reconciler revoke failed: '' @ err\<rparr>
               | None \<Rightarrow> x\<lparr>Status := StatusExpired, ExpiredAt := rfc3339 e (clock e)\<rparr>)" .
    have "find (\<lambda>r. RequestID r = RequestID x) (tableRequests (snd (sweep e (x # xs) n w))) =
         Some (case RevokeAccess e (AccountID x) (IdentityStoreUserID x) of
                 Some err \<Rightarrow> x\<lparr>Status := StatusError, ErrorDetails := ''reconciler revoke failed: '' @ err\<rparr>
               | None \<Rightarrow> x\<lparr>Status := StatusExpired, ExpiredAt := rfc3339 e (clock e)\<rparr>)"
    proof (rule disjE [OF step])
      assume "snd (sweep e (x # xs) n w) = snd (sweep e xs n ?w1)"
      with sweep_other [OF notin, of e n ?w1] row show ?thesis by (simp del: sweep.simps)
    next
      assume "snd (sweep e (x # xs) n w) = snd (sweep e xs (n + 1) ?w1')"
      with sweep_other [OF notin, of e "n + 1" ?w1'] row show ?thesis by (simp del: sweep.simps)
    qed
    then show ?thesis unfolding True .
  next
    case False
    with Cons.prems(3) have mem: "req \<in> set xs" by simp
    have dist: "distinct (map RequestID xs)" using Cons.prems(1) by simp
    have rows: "\<forall>r \<in> set xs. find (\<lambda>y. RequestID y = RequestID r) (tableRequests w1) = Some r \<and> Status r = StatusGranted"
      if "tableRequests w1 = tableRequests ?w1" for w1 :: world
    proof
      fix r assume r: "r \<in> set xs"
      with notin have "RequestID r \<noteq> RequestID x" by (metis imageI)
      from revokeExpired_other [OF this, of e w] Cons.prems(2) r that
      show "find (\<lambda>y. RequestID y = RequestID r) (tableRequests w1) = Some r \<and> Status r = StatusGranted"
        by simp
    qed
    from step show ?thesis
    proof
      assume "snd (sweep e (x # xs) n w) = snd (sweep e xs n ?w1)"
      with Cons.IH [OF dist rows [of ?w1] mem, of n] show ?thesis by (simp del: sweep.simps)
    next
      assume "snd (sweep e (x # xs) n w) = snd (sweep e xs (n + 1) ?w1')"
      with Cons.IH [OF dist rows [of ?w1'] mem, of "n + 1"] show ?thesis by (simp del: sweep.simps)
    qed
  qed
qed

lemma sweep_audits_error:
  assumes "OpPutAuditEvent \<notin> outage e" and "distinct (map RequestID reqs)" and "req \<in> set reqs"
      and "RevokeAccess e (AccountID req) (IdentityStoreUserID req) = Some err"
  shows "\<exists>ev \<in> set (tableAudit (snd (sweep e reqs n w))).
           ev_RequestID ev = RequestID req \<and> ev_EventType ev = EventError \<and> ev_Details ev = [(''error'', err)]"
  using assms(2,3)
proof (induction reqs arbitrary: n w)
  case Nil
  then show ?case by simp
next
  case (Cons x xs)
  let ?w1 = "snd (revokeExpired e x w)"
  let ?w1' = "slog LevelError ''failed to revoke expired grant'' ?w1"
  have step: "snd (sweep e (x # xs) n w) = snd (sweep e xs n ?w1) \<or>
              snd (sweep e (x # xs) n w) = snd (sweep e xs (n + 1) ?w1')"
    by (simp add: Let_def)
  have notin: "RequestID x \<notin> RequestID ` set xs" using Cons.prems(1) by auto
  show ?case
  proof (cases "req = x")
    case True
    from revokeExpired_audits_error [OF assms(1), of x err w] assms(4) True
    obtain ev where ev: "ev \<in> set (tableAudit ?w1)" "ev_RequestID ev = RequestID req"
      "ev_EventType ev = EventError" "ev_Details ev = [(''error'', err)]" by auto
    with notin True have out: "ev_RequestID ev \<notin> RequestID ` set xs" by simp
    from ev(1) have ev': "ev \<in> set (tableAudit ?w1')" by simp
    from step show ?thesis
    proof
      assume "snd (sweep e (x # xs) n w) = snd (sweep e xs n ?w1)"
      with sweep_keeps [OF ev(1) out, of e n] ev(2-4) show ?thesis by (auto simp del: sweep.simps)
    next
      assume "snd (sweep e (x # xs) n w) = snd (sweep e xs (n + 1) ?w1')"
      with sweep_keeps [OF ev' out, of e "n + 1"] ev(2-4) show ?thesis by (auto simp del: sweep.simps)
    qed
  next
    case False
    with Cons.prems(2) have mem: "req \<in> set xs" by simp
    have dist: "distinct (map RequestID xs)" using Cons.prems(1) by simp
    from step show ?thesis
    proof
      assume "snd (sweep e (x # xs) n w) = snd (sweep e xs n ?w1)"
      with Cons.IH [OF dist mem, of n ?w1] show ?thesis by (simp del: sweep.simps)
    next
      assume "snd (sweep e (x # xs) n w) = snd (sweep e xs (n + 1) ?w1')"
      with Cons.IH [OF dist mem, of "n + 1" ?w1'] show ?thesis by (simp del: sweep.simps)
    qed
  qed
qed


subsection \<open>The tick\<close>

lemma Handle_unfold:
  assumes "QueryRequestsByStatus e w StatusGranted (rfc3339 e (clock e)) 0 = DbOk due"
  shows "Handle e w =
     (let swept = sweep e due 0 (slog LevelInfo ''found expired grants'' (slog LevelInfo ''reconciler run starting'' w))
      in if fst swept > 0
         then (Some (ErrReconcilerCompletedWithErrors (fst swept) (int (length due))),
               slog LevelWarn ''reconciler completed with errors'' (snd swept))
         else (None, slog LevelInfo ''reconciler run completed'' (snd swept)))"
  using assms by (simp add: Handle_def Let_def)

lemma Handle_tables:
  assumes "QueryRequestsByStatus e w StatusGranted (rfc3339 e (clock e)) 0 = DbOk due"
  shows "tableRequests (snd (Handle e w)) =
           tableRequests (snd (sweep e due 0 (slog LevelInfo ''found expired grants''
              (slog LevelInfo ''reconciler run starting'' w))))"
    and "tableAudit (snd (Handle e w)) =
           tableAudit (snd (sweep e due 0 (slog LevelInfo ''found expired grants''
              (slog LevelInfo ''reconciler run starting'' w))))"
  by (simp_all add: Handle_unfold [OF assms] Let_def)

text \<open>
  C7 (as amended). In a tick whose query returns the requests \<open>due\<close> (request ids are
  distinct, conditional updates and audit puts are available): a request of \<open>due\<close> whose
  identity revoke fails with \<open>err\<close> ends as ERROR with \<open>error_details\<close> naming \<open>err\<close>, and an
  ERROR audit event for it is in the audit table; every request of \<open>due\<close> whose identity
  revoke succeeds ends as EXPIRED, wherever it stands in the list; and when at least one
  request failed, the tick writes a log record of level warning and then returns an error
  that carries the number of failed requests and the number of requests handled.
\<close>

theorem reconciler_tick_with_failures:
  assumes "QueryRequestsByStatus e w StatusGranted (rfc3339 e (clock e)) 0 = DbOk due"
      and "distinct (map RequestID (tableRequests w))"
      and "OpConditionalUpdateStatus \<notin> outage e" and "OpPutAuditEvent \<notin> outage e"
  shows "(\<forall>req \<in> set due. \<forall>err. RevokeAccess e (AccountID req) (IdentityStoreUserID req) = Some err \<longrightarrow>
            find (\<lambda>r. RequestID r = RequestID req) (tableRequests (snd (Handle e w))) =
              Some (req\<lparr>Status := StatusError, ErrorDetails := ''reconciler revoke failed: '' @ err\<rparr>)
          \<and> (\<exists>ev \<in> set (tableAudit (snd (Handle e w))).
                ev_RequestID ev = RequestID req \<and> ev_EventType ev = EventError
              \<and> ev_Details ev = [(''error'', err)]))
       \<and> (\<forall>req \<in> set due. RevokeAccess e (AccountID req) (IdentityStoreUserID req) = None \<longrightarrow>
            find (\<lambda>r. RequestID r = RequestID req) (tableRequests (snd (Handle e w))) =
              Some (req\<lparr>Status := StatusExpired, ExpiredAt := rfc3339 e (clock e)\<rparr>))
       \<and> ((\<exists>req \<in> set due. RevokeAccess e (AccountID req) (IdentityStoreUserID req) \<noteq> None) \<longrightarrow>
            fst (Handle e w) =
              Some (ErrReconcilerCompletedWithErrors
                      (int (length (filter (\<lambda>r. RevokeAccess e (AccountID r) (IdentityStoreUserID r) \<noteq> None) due)))
                      (int (length due)))
          \<and> last (logged (snd (Handle e w))) = (LevelWarn, ''reconciler completed with errors''))"
proof -
  let ?w1 = "slog LevelInfo ''found expired grants'' (slog LevelInfo ''reconciler run starting'' w)"
  note q = query_result [OF assms(1)]
  have dist: "distinct (map RequestID due)" using q(3) assms(2) by simp
  have stored: "\<forall>r \<in> set due. find (\<lambda>x. RequestID x = RequestID r) (tableRequests ?w1) = Some r
                  \<and> Status r = StatusGranted"
  proof
    fix r assume "r \<in> set due"
    with q(1,2) have "r \<in> set (tableRequests w)" and "Status r = StatusGranted" by auto
    with find_distinct_key [OF assms(2), of r] show "find (\<lambda>x. RequestID x = RequestID r) (tableRequests ?w1) = Some r
                  \<and> Status r = StatusGranted" by simp
  qed
  note rows = sweep_rows [OF assms(3) dist stored, of _ 0]
  have failing: "find (\<lambda>r. RequestID r = RequestID req) (tableRequests (snd (Handle e w))) =
              Some (req\<lparr>Status := StatusError, ErrorDetails := ''reconciler revoke failed: '' @ err\<rparr>)
          \<and> (\<exists>ev \<in> set (tableAudit (snd (Handle e w))).
                ev_RequestID ev = RequestID req \<and> ev_EventType ev = EventError
              \<and> ev_Details ev = [(''error'', err)])"
    if "req \<in> set due" "RevokeAccess e (AccountID req) (IdentityStoreUserID req) = Some err" for req err
    using rows [OF that(1)] sweep_audits_error [OF assms(4) dist that, of 0 ?w1] that(2)
    by (simp add: Handle_tables [OF assms(1)])
  have passing: "find (\<lambda>r. RequestID r = RequestID req) (tableRequests (snd (Handle e w))) =
              Some (req\<lparr>Status := StatusExpired, ExpiredAt := rfc3339 e (clock e)\<rparr>)"
    if "req \<in> set due" "RevokeAccess e (AccountID req) (IdentityStoreUserID req) = None" for req
    using rows [OF that(1)] that(2) by (simp add: Handle_tables [OF assms(1)])
  have result: "fst (Handle e w) =
              Some (ErrReconcilerCompletedWithErrors
                      (int (length (filter (\<lambda>r. RevokeAccess e (AccountID r) (IdentityStoreUserID r) \<noteq> None) due)))
                      (int (length due)))
          \<and> last (logged (snd (Handle e w))) = (LevelWarn, ''reconciler completed with errors'')"
    if "\<exists>req \<in> set due. RevokeAccess e (AccountID req) (IdentityStoreUserID req) \<noteq> None"
  proof -
    from that have "filter (\<lambda>r. RevokeAccess e (AccountID r) (IdentityStoreUserID r) \<noteq> None) due \<noteq> []"
      by (simp add: filter_empty_conv del: not_None_eq)
    then have "0 < fst (sweep e due 0 ?w1)"
      by (simp add: sweep_count del: not_None_eq)
    then show ?thesis
      by (simp add: Handle_unfold [OF assms(1)] Let_def sweep_count del: not_None_eq)
  qed
  from failing passing result show ?thesis by blast
qed


theorem reconciler_tick_with_failures_witness:
  "find (\<lambda>r. RequestID r = ''r2'')
     (tableRequests (snd (Handle sample_env
        (sample_world [] [sample_request ''r2'' ''222222222222'' StatusGranted,
                          sample_request ''r1'' ''111111111111'' StatusGranted])))) =
     Some ((sample_request ''r2'' ''222222222222'' StatusGranted)
             \<lparr>Status := StatusError, ErrorDetails := ''reconciler revoke failed: SSO unavailable''\<rparr>)
   \<and> find (\<lambda>r. RequestID r = ''r1'')
     (tableRequests (snd (Handle sample_env
        (sample_world [] [sample_request ''r2'' ''222222222222'' StatusGranted,
                          sample_request ''r1'' ''111111111111'' StatusGranted])))) =
     Some ((sample_request ''r1'' ''111111111111'' StatusGranted)
             \<lparr>Status := StatusExpired, ExpiredAt := ''2026-01-01T00:00:00Z''\<rparr>)
   \<and> last (logged (snd (Handle sample_env
        (sample_world [] [sample_request ''r2'' ''222222222222'' StatusGranted,
                          sample_request ''r1'' ''111111111111'' StatusGranted])))) =
     (LevelWarn, ''reconciler completed with errors'')"
proof -
  let ?r1 = "sample_request ''r1'' ''111111111111'' StatusGranted"
  let ?r2 = "sample_request ''r2'' ''222222222222'' StatusGranted"
  let ?w = "sample_world [] [?r2, ?r1]"
  have q: "QueryRequestsByStatus sample_env ?w StatusGranted (rfc3339 sample_env (clock sample_env)) 0 = DbOk [?r2, ?r1]"
    by (simp add: svc_eval)
  have d: "distinct (map RequestID (tableRequests ?w))"
    by (simp add: sample_world_def sample_request_def)
  have u: "OpConditionalUpdateStatus \<notin> outage sample_env" and a: "OpPutAuditEvent \<notin> outage sample_env"
    by (simp_all add: sample_env_def)
  note t = reconciler_tick_with_failures [OF q d u a]
  have m1: "?r1 \<in> set [?r2, ?r1]" and m2: "?r2 \<in> set [?r2, ?r1]" by simp_all
  have f2: "RevokeAccess sample_env (AccountID ?r2) (IdentityStoreUserID ?r2) = Some ''SSO unavailable''"
    by (simp add: sample_env_def sample_request_def)
  have f1: "RevokeAccess sample_env (AccountID ?r1) (IdentityStoreUserID ?r1) = None"
    by (simp add: sample_env_def sample_request_def)
  have ex: "\<exists>req \<in> set [?r2, ?r1]. RevokeAccess sample_env (AccountID req) (IdentityStoreUserID req) \<noteq> None"
    using f2 by simp
  from t [THEN conjunct1, rule_format, OF m2 f2, THEN conjunct1]
  have row2: "find (\<lambda>r. RequestID r = RequestID ?r2) (tableRequests (snd (Handle sample_env ?w))) =
      Some (?r2\<lparr>Status := StatusError, ErrorDetails := ''reconciler revoke failed: '' @ ''SSO unavailable''\<rparr>)" .
  from t [THEN conjunct2, THEN conjunct1, rule_format, OF m1 f1]
  have row1: "find (\<lambda>r. RequestID r = RequestID ?r1) (tableRequests (snd (Handle sample_env ?w))) =
      Some (?r1\<lparr>Status := StatusExpired, ExpiredAt := rfc3339 sample_env (clock sample_env)\<rparr>)" .
  from t [THEN conjunct2, THEN conjunct2, THEN mp, OF ex, THEN conjunct2]
  have warn: "last (logged (snd (Handle sample_env ?w))) = (LevelWarn, ''reconciler completed with errors'')" .
  have id1: "RequestID ?r1 = ''r1''" and id2: "RequestID ?r2 = ''r2''" by (simp_all add: sample_request_def)
  have now: "rfc3339 sample_env (clock sample_env) = ''2026-01-01T00:00:00Z''" by (simp add: sample_env_def)
  from row1 row2 warn show ?thesis by (simp add: id1 id2 now)
qed

text \<open>
  C7 as stated fails in its last part: a tick in which one identity revoke fails returns an
  error to its caller, the scheduled invocation, although it has handled every request.
\<close>

theorem reconciler_returns_error_counterexample:
  "fst (Handle sample_env
          (sample_world [] [sample_request ''r2'' ''222222222222'' StatusGranted,
                            sample_request ''r1'' ''111111111111'' StatusGranted])) =
     Some (ErrReconcilerCompletedWithErrors 1 2)"
  by (simp add: Handle_def revokeExpired_def svc_eval eval_nat_numeral)

end
